theory Spec2Isabelle
  imports Main "HOL-Library.Word" "HOL-Library.Sublist"
begin

unbundle bit_operations_syntax

section \<open>Python values\<close>

text \<open>
  A Python \<open>bytes\<close> value is a list of 8-bit words; a Python \<open>str\<close> is a list of Unicode
  code points. String literals of the scripts are written with \<open>lit\<close>; the newline that
  \<open>print\<close> adds is the code point 10.
\<close>

type_synonym byte = "8 word"

type_synonym pystr = "nat list"

definition lit :: "string \<Rightarrow> pystr" where
  "lit s = map of_char s"

definition nl :: pystr where
  "nl = [10]"

text \<open>
  The exceptions the calls of the scripts raise are instances of \<open>Exception\<close>. They are
  told apart the way the \<open>except\<close> clauses of \<open>ssh-helper.py\<close> tell them apart:
  an instance of \<open>paramiko.AuthenticationException\<close>; an instance of
  \<open>paramiko.SSHException\<close> that is not one of the former; any other instance of
  \<open>Exception\<close> (socket errors, \<open>UnicodeDecodeError\<close>, \<open>FileNotFoundError\<close>, ...).
  Each carries the text \<open>str(e)\<close>. \<open>sys.exit(n)\<close> raises \<open>SystemExit\<close>, which is not
  an instance of \<open>Exception\<close>; it is the second kind of signal below. Interrupts
  delivered asynchronously to the process are outside this model.
\<close>

datatype py_exn =
    AuthenticationException pystr
  | SSHException pystr
  | OtherException pystr

datatype signal = Raise py_exn | SysExit int

text \<open>How the process ends: with an exit code, or with an exception nobody caught.\<close>

datatype outcome = Exit int | Uncaught py_exn

subsection \<open>\<open>bytes.decode()\<close>: strict UTF-8\<close>

definition cont :: "byte \<Rightarrow> bool" where
  "cont b \<longleftrightarrow> 0x80 \<le> b \<and> b \<le> 0xBF"

definition cbits :: "byte \<Rightarrow> nat" where
  "cbits b = unat (b AND 0x3F)"

definition lo3 :: "byte \<Rightarrow> byte" where
  "lo3 b = (if b = 0xE0 then 0xA0 else 0x80)"

definition hi3 :: "byte \<Rightarrow> byte" where
  "hi3 b = (if b = 0xED then 0x9F else 0xBF)"

definition lo4 :: "byte \<Rightarrow> byte" where
  "lo4 b = (if b = 0xF0 then 0x90 else 0x80)"

definition hi4 :: "byte \<Rightarrow> byte" where
  "hi4 b = (if b = 0xF4 then 0x8F else 0xBF)"

text \<open>
  \<open>utf8_decode\<close> accepts exactly the well-formed UTF-8 byte sequences (no overlong forms,
  no surrogates, nothing above U+10FFFF) and returns their code points; \<open>None\<close> is the
  \<open>UnicodeDecodeError\<close> of the default, strict error handler.
\<close>

fun utf8_decode :: "byte list \<Rightarrow> pystr option" where
  "utf8_decode [] = Some []"
| "utf8_decode (b # bs) =
    (if b \<le> 0x7F then map_option ((#) (unat b)) (utf8_decode bs)
     else if 0xC2 \<le> b \<and> b \<le> 0xDF then
       (case bs of
          c1 # r \<Rightarrow>
            if cont c1
            then map_option ((#) (unat (b AND 0x1F) * 64 + cbits c1)) (utf8_decode r)
            else None
        | _ \<Rightarrow> None)
     else if 0xE0 \<le> b \<and> b \<le> 0xEF then
       (case bs of
          c1 # c2 # r \<Rightarrow>
            if lo3 b \<le> c1 \<and> c1 \<le> hi3 b \<and> cont c2
            then map_option ((#) (unat (b AND 0x0F) * 4096 + cbits c1 * 64 + cbits c2))
                   (utf8_decode r)
            else None
        | _ \<Rightarrow> None)
     else if 0xF0 \<le> b \<and> b \<le> 0xF4 then
       (case bs of
          c1 # c2 # c3 # r \<Rightarrow>
            if lo4 b \<le> c1 \<and> c1 \<le> hi4 b \<and> cont c2 \<and> cont c3
            then map_option
                   ((#) (unat (b AND 0x07) * 262144 + cbits c1 * 4096 + cbits c2 * 64 + cbits c3))
                   (utf8_decode r)
            else None
        | _ \<Rightarrow> None)
     else None)"

subsection \<open>\<open>str.strip()\<close> and \<open>in\<close>\<close>

text \<open>The code points for which \<open>str.isspace\<close> holds; \<open>strip()\<close> removes them at both ends.\<close>

definition py_isspace :: "nat \<Rightarrow> bool" where
  "py_isspace c \<longleftrightarrow>
     (9 \<le> c \<and> c \<le> 13) \<or> (28 \<le> c \<and> c \<le> 32) \<or> c = 0x85 \<or> c = 0xA0 \<or> c = 0x1680
     \<or> (0x2000 \<le> c \<and> c \<le> 0x200A) \<or> c = 0x2028 \<or> c = 0x2029 \<or> c = 0x202F
     \<or> c = 0x205F \<or> c = 0x3000"

definition strip :: "pystr \<Rightarrow> pystr" where
  "strip s = rev (dropWhile py_isspace (rev (dropWhile py_isspace s)))"

text \<open>\<open>x in y\<close> on strings: \<open>x\<close> occurs in \<open>y\<close> as a contiguous substring.\<close>

fun py_in :: "pystr \<Rightarrow> pystr \<Rightarrow> bool" where
  "py_in x [] = (x = [])"
| "py_in x (c # cs) = (prefix x (c # cs) \<or> py_in x cs)"

section \<open>The SSH client library, as the scripts use it\<close>

datatype policy = RejectPolicy | AutoAddPolicy | WarningPolicy

text \<open>
  \<open>paramiko.SSHClient()\<close>: a fresh client rejects unknown host keys and knows no host
  key; only \<open>load_system_host_keys\<close> and \<open>load_host_keys\<close>, which neither script calls,
  add known keys before a connection.
\<close>

record client =
  missing_host_key_policy :: policy
  known_host_keys :: "(pystr \<times> byte list) list"

definition SSHClient :: client where
  "SSHClient = \<lparr>missing_host_key_policy = RejectPolicy, known_host_keys = []\<rparr>"

definition set_missing_host_key_policy :: "policy \<Rightarrow> client \<Rightarrow> client" where
  "set_missing_host_key_policy pol c = c\<lparr>missing_host_key_policy := pol\<rparr>"

text \<open>
  What \<open>exec_command\<close> hands back: the two streams, each read to end of file by
  \<open>read()\<close> (or failing), and the exit status \<open>recv_exit_status()\<close> waits for.
\<close>

record channel =
  ch_stdout :: "py_exn + byte list"
  ch_stderr :: "py_exn + byte list"
  ch_exit_status :: int

text \<open>
  Everything outside the script: the server's host key, whether the transport can be
  set up and the credentials are accepted, what the remote side does with a command in
  its state \<open>'r\<close>, the local files, the texts of a \<open>UnicodeDecodeError\<close> and of
  the exception for a host key that is refused, and what \<open>sys.stdout\<close> can encode:
  \<open>encode_error_text s\<close> is the text of the \<open>UnicodeEncodeError\<close> that printing \<open>s\<close> to
  \<open>sys.stdout\<close> raises, \<open>None\<close> when its encoding has every character of \<open>s\<close>.
\<close>

record 'r world =
  server_key :: "byte list"
  transport_outcome :: "pystr \<Rightarrow> py_exn option"
  auth_outcome :: "pystr \<Rightarrow> pystr \<Rightarrow> pystr \<Rightarrow> py_exn option"
  exec_outcome :: "pystr \<Rightarrow> 'r \<Rightarrow> (py_exn + channel) \<times> 'r"
  local_file :: "pystr \<Rightarrow> py_exn + pystr"
  decode_error_text :: "byte list \<Rightarrow> pystr"
  host_key_error_text :: "pystr \<Rightarrow> byte list \<Rightarrow> pystr"
  encode_error_text :: "pystr \<Rightarrow> pystr option"

text \<open>The calls a run makes on the library, in order.\<close>

datatype event =
    EvNewClient
  | EvSetPolicy policy
  | EvConnect pystr pystr pystr nat
  | EvExec pystr
  | EvReadStdout
  | EvReadStderr
  | EvExitStatus
  | EvClose

text \<open>
  The state of a run: what has been written to the process's own stdout and stderr
  (one entry per \<open>print\<close>), the library calls made, whether the session is open, and
  the remote state.
\<close>

record 'r proc =
  p_stdout :: "pystr list"
  p_stderr :: "pystr list"
  p_trace :: "event list"
  p_open :: bool
  p_remote :: 'r

definition start :: "'r \<Rightarrow> 'r proc" where
  "start r = \<lparr>p_stdout = [], p_stderr = [], p_trace = [], p_open = False, p_remote = r\<rparr>"

definition log :: "event \<Rightarrow> 'r proc \<Rightarrow> 'r proc" where
  "log e p = p\<lparr>p_trace := p_trace p @ [e]\<rparr>"

text \<open>Sequencing: a statement that raises ends the block with that signal.\<close>

definition bind ::
  "('s \<Rightarrow> (signal + 'a) \<times> 's) \<Rightarrow> ('a \<Rightarrow> 's \<Rightarrow> (signal + 'b) \<times> 's) \<Rightarrow> 's \<Rightarrow> (signal + 'b) \<times> 's"
where
  "bind m f p = (case m p of (Inl s, p') \<Rightarrow> (Inl s, p') | (Inr x, p') \<Rightarrow> f x p')"

definition new_client :: "'r proc \<Rightarrow> (signal + client) \<times> 'r proc" where
  "new_client p = (Inr SSHClient, log EvNewClient p)"

definition set_policy :: "policy \<Rightarrow> client \<Rightarrow> 'r proc \<Rightarrow> (signal + client) \<times> 'r proc" where
  "set_policy pol c p = (Inr (set_missing_host_key_policy pol c), log (EvSetPolicy pol) p)"

text \<open>
  The host-key step of \<open>connect\<close>: a key known for the host must match; an unknown
  one is handed to the policy, and only \<open>RejectPolicy\<close> refuses it.
\<close>

definition host_key_check :: "'r world \<Rightarrow> client \<Rightarrow> pystr \<Rightarrow> byte list \<Rightarrow> py_exn option" where
  "host_key_check w c host key =
    (case map_of (known_host_keys c) host of
       Some k \<Rightarrow> if k = key then None else Some (SSHException (host_key_error_text w host key))
     | None \<Rightarrow>
         (case missing_host_key_policy c of
            RejectPolicy \<Rightarrow> Some (SSHException (host_key_error_text w host key))
          | AutoAddPolicy \<Rightarrow> None
          | WarningPolicy \<Rightarrow> None))"

definition connect ::
  "'r world \<Rightarrow> client \<Rightarrow> pystr \<Rightarrow> pystr \<Rightarrow> pystr \<Rightarrow> nat \<Rightarrow> 'r proc \<Rightarrow> (signal + unit) \<times> 'r proc"
where
  "connect w c host user password tmo p =
    (let p' = log (EvConnect host user password tmo) p in
     case transport_outcome w host of
       Some e \<Rightarrow> (Inl (Raise e), p')
     | None \<Rightarrow>
         (case host_key_check w c host (server_key w) of
            Some e \<Rightarrow> (Inl (Raise e), p')
          | None \<Rightarrow>
              (case auth_outcome w host user password of
                 Some e \<Rightarrow> (Inl (Raise e), p')
               | None \<Rightarrow> (Inr (), p'\<lparr>p_open := True\<rparr>))))"

definition exec_command :: "'r world \<Rightarrow> pystr \<Rightarrow> 'r proc \<Rightarrow> (signal + channel) \<times> 'r proc" where
  "exec_command w cmd p =
    (let p' = log (EvExec cmd) p in
     case exec_outcome w cmd (p_remote p') of
       (Inl e, r') \<Rightarrow> (Inl (Raise e), p'\<lparr>p_remote := r'\<rparr>)
     | (Inr ch, r') \<Rightarrow> (Inr ch, p'\<lparr>p_remote := r'\<rparr>))"

definition read_stdout :: "channel \<Rightarrow> 'r proc \<Rightarrow> (signal + byte list) \<times> 'r proc" where
  "read_stdout ch p =
    (case ch_stdout ch of
       Inl e \<Rightarrow> (Inl (Raise e), log EvReadStdout p)
     | Inr bs \<Rightarrow> (Inr bs, log EvReadStdout p))"

definition read_stderr :: "channel \<Rightarrow> 'r proc \<Rightarrow> (signal + byte list) \<times> 'r proc" where
  "read_stderr ch p =
    (case ch_stderr ch of
       Inl e \<Rightarrow> (Inl (Raise e), log EvReadStderr p)
     | Inr bs \<Rightarrow> (Inr bs, log EvReadStderr p))"

definition decode :: "'r world \<Rightarrow> byte list \<Rightarrow> 'r proc \<Rightarrow> (signal + pystr) \<times> 'r proc" where
  "decode w bs p =
    (case utf8_decode bs of
       None \<Rightarrow> (Inl (Raise (OtherException (decode_error_text w bs))), p)
     | Some s \<Rightarrow> (Inr s, p))"

definition recv_exit_status :: "channel \<Rightarrow> 'r proc \<Rightarrow> (signal + int) \<times> 'r proc" where
  "recv_exit_status ch p = (Inr (ch_exit_status ch), log EvExitStatus p)"

definition close :: "'r proc \<Rightarrow> (signal + unit) \<times> 'r proc" where
  "close p = (Inr (), (log EvClose p)\<lparr>p_open := False\<rparr>)"

text \<open>
  \<open>print\<close> to \<open>sys.stdout\<close> encodes the whole text before it writes: when the
  encoding lacks a character, nothing is written and \<open>UnicodeEncodeError\<close> is raised.
  \<open>sys.stderr\<close> has the error handler \<open>backslashreplace\<close>, so every text can be
  printed there.
\<close>

definition print_stdout :: "'r world \<Rightarrow> pystr \<Rightarrow> 'r proc \<Rightarrow> (signal + unit) \<times> 'r proc" where
  "print_stdout w s p =
    (case encode_error_text w s of
       Some m \<Rightarrow> (Inl (Raise (OtherException m)), p)
     | None \<Rightarrow> (Inr (), p\<lparr>p_stdout := p_stdout p @ [s]\<rparr>))"

definition print_stderr :: "pystr \<Rightarrow> 'r proc \<Rightarrow> (signal + unit) \<times> 'r proc" where
  "print_stderr s p = (Inr (), p\<lparr>p_stderr := p_stderr p @ [s]\<rparr>)"

definition skip :: "'r proc \<Rightarrow> (signal + unit) \<times> 'r proc" where
  "skip p = (Inr (), p)"

definition sys_exit :: "int \<Rightarrow> 'r proc \<Rightarrow> (signal + unit) \<times> 'r proc" where
  "sys_exit n p = (Inl (SysExit n), p)"

section \<open>\<open>ssh-helper.py\<close>\<close>

definition usage :: pystr where
  "usage = lit ''Usage: ssh-helper.py <host> <user> <password> <command>''"

text \<open>The body of the \<open>try\<close> block of \<open>main\<close>.\<close>

definition main_try ::
  "'r world \<Rightarrow> pystr \<Rightarrow> pystr \<Rightarrow> pystr \<Rightarrow> pystr \<Rightarrow> 'r proc \<Rightarrow> (signal + unit) \<times> 'r proc"
where
  "main_try w host user password command =
    bind new_client (\<lambda>client0.
    bind (set_policy AutoAddPolicy client0) (\<lambda>client.
    bind (connect w client host user password 15) (\<lambda>_.
    bind (exec_command w command) (\<lambda>ch.
    bind (read_stdout ch) (\<lambda>out_bytes.
    bind (decode w out_bytes) (\<lambda>out.
    bind (read_stderr ch) (\<lambda>err_bytes.
    bind (decode w err_bytes) (\<lambda>err.
    bind (recv_exit_status ch) (\<lambda>exit_code.
    bind close (\<lambda>_.
    bind (print_stdout w out) (\<lambda>_.
    bind (if err \<noteq> [] then print_stderr err else skip) (\<lambda>_.
    sys_exit exit_code))))))))))))"

text \<open>
  The \<open>except\<close> clauses, in the order of the source. \<open>SystemExit\<close> passes them and
  ends the process with its code; a block that ends without a signal returns from
  \<open>main\<close>, and the interpreter exits with 0.
\<close>

fun handlers :: "(signal + unit) \<times> 'r proc \<Rightarrow> outcome \<times> 'r proc" where
  "handlers (Inl (SysExit n), p) = (Exit n, p)"
| "handlers (Inl (Raise (AuthenticationException m)), p) =
     (Exit 255, p\<lparr>p_stderr := p_stderr p @ [lit ''Authentication failed'' @ nl]\<rparr>)"
| "handlers (Inl (Raise (SSHException m)), p) =
     (Exit 255, p\<lparr>p_stderr := p_stderr p @ [lit ''SSH error: '' @ m @ nl]\<rparr>)"
| "handlers (Inl (Raise (OtherException m)), p) =
     (Exit 255, p\<lparr>p_stderr := p_stderr p @ [lit ''Connection error: '' @ m @ nl]\<rparr>)"
| "handlers (Inr u, p) = (Exit 0, p)"

text \<open>\<open>main\<close>, given \<open>sys.argv\<close> (the program name first), the world and the remote state.\<close>

definition main :: "pystr list \<Rightarrow> 'r world \<Rightarrow> 'r \<Rightarrow> outcome \<times> 'r proc" where
  "main argv w r =
    (if length argv < 5
     then (Exit 1, (start r)\<lparr>p_stderr := [usage @ nl]\<rparr>)
     else handlers (main_try w (argv ! 1) (argv ! 2) (argv ! 3) (argv ! 4) (start r)))"

section \<open>\<open>add_key_nvram.py\<close>\<close>

definition key_path :: pystr where
  "key_path = lit ''C:/Users/Shadow-PC/.ssh/id_rsa.pub''"

definition router_host :: pystr where
  "router_host = lit ''192.168.178.3''"

definition router_user :: pystr where
  "router_user = lit ''admin''"

definition router_password :: pystr where
  "router_password = lit ''Mel21isas''"

definition nvram_get_cmd :: pystr where
  "nvram_get_cmd = lit ''nvram get sshd_authkeys''"

text \<open>The two f-strings; the code point 34 is the double quote around the key.\<close>

definition jffs_cmd :: "pystr \<Rightarrow> pystr" where
  "jffs_cmd pubkey =
     lit ''echo '' @ [34] @ pubkey @ [34]
     @ lit '' >> /jffs/.ssh/authorized_keys 2>/dev/null || mkdir -p /jffs/.ssh && echo ''
     @ [34] @ pubkey @ [34] @ lit '' >> /jffs/.ssh/authorized_keys''"

definition dropbear_cmd :: "pystr \<Rightarrow> pystr" where
  "dropbear_cmd pubkey =
     lit ''echo '' @ [34] @ pubkey @ [34] @ lit '' >> /etc/dropbear/authorized_keys 2>/dev/null''"

definition already_msg :: pystr where
  "already_msg = lit ''Key already in nvram''"

definition added_msg :: pystr where
  "added_msg = lit ''Key added to /jffs/.ssh/authorized_keys and /etc/dropbear/''"

text \<open>\<open>open(path).read()\<close>: the text of a local file, or the exception of a failed read.\<close>

definition read_text_file :: "'r world \<Rightarrow> pystr \<Rightarrow> 'r proc \<Rightarrow> (signal + pystr) \<times> 'r proc" where
  "read_text_file w path p =
    (case local_file w path of
       Inl e \<Rightarrow> (Inl (Raise e), p)
     | Inr s \<Rightarrow> (Inr s, p))"

text \<open>The module body, statement by statement.\<close>

definition add_key_body :: "'r world \<Rightarrow> 'r proc \<Rightarrow> (signal + unit) \<times> 'r proc" where
  "add_key_body w =
    bind (read_text_file w key_path) (\<lambda>raw.
    let pubkey = strip raw in
    bind new_client (\<lambda>c0.
    bind (set_policy AutoAddPolicy c0) (\<lambda>c.
    bind (connect w c router_host router_user router_password 10) (\<lambda>_.
    bind (exec_command w nvram_get_cmd) (\<lambda>ch.
    bind (read_stdout ch) (\<lambda>bs.
    bind (decode w bs) (\<lambda>s.
    let current = strip s in
    bind (if py_in pubkey current
          then print_stdout w (already_msg @ nl)
          else
            bind (exec_command w (jffs_cmd pubkey)) (\<lambda>ch1.
            bind (read_stdout ch1) (\<lambda>_.
            bind (read_stderr ch1) (\<lambda>_.
            bind (exec_command w (dropbear_cmd pubkey)) (\<lambda>ch2.
            bind (read_stdout ch2) (\<lambda>_.
            print_stdout w (added_msg @ nl))))))) (\<lambda>_.
    close))))))))"

text \<open>
  The script has no \<open>try\<close>: an exception ends the process uncaught; a run that reaches
  the end of the module exits with 0.
\<close>

definition add_key :: "'r world \<Rightarrow> 'r \<Rightarrow> outcome \<times> 'r proc" where
  "add_key w r =
    (case add_key_body w (start r) of
       (Inr u, p) \<Rightarrow> (Exit 0, p)
     | (Inl (SysExit n), p) \<Rightarrow> (Exit n, p)
     | (Inl (Raise e), p) \<Rightarrow> (Uncaught e, p))"

section \<open>Orders of calls\<close>

text \<open>\<open>precedes a b xs\<close>: \<open>b\<close> occurs in \<open>xs\<close>, and \<open>a\<close> occurs before the first \<open>b\<close>.\<close>

fun precedes :: "'a \<Rightarrow> 'a \<Rightarrow> 'a list \<Rightarrow> bool" where
  "precedes a b [] = False"
| "precedes a b (x # xs) =
     (if x = b then False else if x = a then b \<in> set xs else precedes a b xs)"

text \<open>Both steps of \<open>connect\<close> that the world decides go through.\<close>

definition connect_ok :: "'r world \<Rightarrow> pystr \<Rightarrow> pystr \<Rightarrow> pystr \<Rightarrow> bool" where
  "connect_ok w host user password \<longleftrightarrow>
     transport_outcome w host = None \<and> auth_outcome w host user password = None"

section \<open>Example worlds\<close>

text \<open>
  A world given by the outcomes of the transport and of the authentication and by the
  result of \<open>exec_command\<close>, the same for every command; the remote state plays no
  part, and \<open>sys.stdout\<close> can encode every text.
\<close>

definition fixed_world :: "py_exn option \<Rightarrow> py_exn option \<Rightarrow> py_exn + channel \<Rightarrow> unit world" where
  "fixed_world tr au ex =
    \<lparr>server_key = [1, 2, 3],
     transport_outcome = (\<lambda>host. tr),
     auth_outcome = (\<lambda>host user password. au),
     exec_outcome = (\<lambda>cmd r. (ex, r)),
     local_file = (\<lambda>path. Inl (OtherException (lit ''No such file or directory''))),
     decode_error_text = (\<lambda>bs. lit ''invalid start byte''),
     host_key_error_text = (\<lambda>host key. lit ''not found in known_hosts''),
     encode_error_text = (\<lambda>s. None)\<rparr>"

definition ok_channel :: "byte list \<Rightarrow> byte list \<Rightarrow> int \<Rightarrow> channel" where
  "ok_channel out err st = \<lparr>ch_stdout = Inr out, ch_stderr = Inr err, ch_exit_status = st\<rparr>"

definition demo_argv :: "pystr list" where
  "demo_argv = [lit ''ssh-helper.py'', lit ''router'', lit ''admin'', lit ''secret'', lit ''ls'']"

text \<open>
  A router for \<open>add_key_nvram.py\<close>: the NVRAM variable \<open>sshd_authkeys\<close>, and the two
  key files with their directories. A file is the list of its lines.
\<close>

record router =
  nvram_sshd_authkeys :: "byte list"
  jffs_ssh_dir :: bool
  jffs_authorized_keys :: "pystr list"
  dropbear_dir :: bool
  dropbear_authorized_keys :: "pystr list"

text \<open>
  Shell commands as state transformers with an exit status; \<open>echo "k" >> file\<close> fails
  when the directory does not exist. \<open>a || b && c\<close> is \<open>(a || b) && c\<close>: the two
  operators have the same precedence and associate to the left.
\<close>

definition append_jffs :: "pystr \<Rightarrow> router \<Rightarrow> int \<times> router" where
  "append_jffs line s =
    (if jffs_ssh_dir s
     then (0, s\<lparr>jffs_authorized_keys := jffs_authorized_keys s @ [line]\<rparr>)
     else (1, s))"

definition mkdir_jffs :: "router \<Rightarrow> int \<times> router" where
  "mkdir_jffs s = (0, s\<lparr>jffs_ssh_dir := True\<rparr>)"

definition append_dropbear :: "pystr \<Rightarrow> router \<Rightarrow> int \<times> router" where
  "append_dropbear line s =
    (if dropbear_dir s
     then (0, s\<lparr>dropbear_authorized_keys := dropbear_authorized_keys s @ [line]\<rparr>)
     else (1, s))"

definition sh_or :: "('s \<Rightarrow> int \<times> 's) \<Rightarrow> ('s \<Rightarrow> int \<times> 's) \<Rightarrow> 's \<Rightarrow> int \<times> 's" where
  "sh_or a b s = (case a s of (st, s') \<Rightarrow> if st = 0 then (st, s') else b s')"

definition sh_and :: "('s \<Rightarrow> int \<times> 's) \<Rightarrow> ('s \<Rightarrow> int \<times> 's) \<Rightarrow> 's \<Rightarrow> int \<times> 's" where
  "sh_and a b s = (case a s of (st, s') \<Rightarrow> if st = 0 then b s' else (st, s'))"

text \<open>
  What the router does with the three commands the script sends for the key \<open>key\<close>
  (a key without characters the shell expands); any other command is not found. The
  messages of the shell are left out: the script reads and drops them.
\<close>

definition router_exec :: "pystr \<Rightarrow> pystr \<Rightarrow> router \<Rightarrow> (py_exn + channel) \<times> router" where
  "router_exec key cmd s =
    (if cmd = nvram_get_cmd
     then (Inr (ok_channel (nvram_sshd_authkeys s @ [10]) [] 0), s)
     else if cmd = jffs_cmd key
     then (case sh_and (sh_or (append_jffs key) mkdir_jffs) (append_jffs key) s of
             (st, s') \<Rightarrow> (Inr (ok_channel [] [] st), s'))
     else if cmd = dropbear_cmd key
     then (case append_dropbear key s of
             (st, s') \<Rightarrow> (Inr (ok_channel [] [] st), s'))
     else (Inr (ok_channel [] [] 127), s))"

definition router_world :: "pystr \<Rightarrow> router world" where
  "router_world key =
    \<lparr>server_key = [1, 2, 3],
     transport_outcome = (\<lambda>host. None),
     auth_outcome = (\<lambda>host user password. None),
     exec_outcome = router_exec key,
     local_file =
       (\<lambda>path. if path = key_path then Inr (key @ nl)
              else Inl (OtherException (lit ''No such file or directory''))),
     decode_error_text = (\<lambda>bs. lit ''invalid start byte''),
     host_key_error_text = (\<lambda>host key. lit ''not found in known_hosts''),
     encode_error_text = (\<lambda>s. None)\<rparr>"

definition demo_key :: pystr where
  "demo_key = lit ''ssh-rsa AAAA me@pc''"

text \<open>A router without the key anywhere, and without the directory \<open>/jffs/.ssh\<close>.\<close>

definition fresh_router :: router where
  "fresh_router =
    \<lparr>nvram_sshd_authkeys = [], jffs_ssh_dir = False, jffs_authorized_keys = [],
     dropbear_dir = True, dropbear_authorized_keys = []\<rparr>"

text \<open>
  Worlds for \<open>add_key_nvram.py\<close> without a remote state: the key file holds
  \<open>demo_key\<close>, the connection is accepted, and each command is answered by the channel
  \<open>answer\<close> gives for it. In \<open>readonly_world\<close> the NVRAM variable is empty and every
  other command fails with status 1, as on a router whose file systems cannot be
  written; in \<open>garbled_world\<close> every output is the byte \<open>0xFF\<close>.
\<close>

definition key_world :: "(pystr \<Rightarrow> channel) \<Rightarrow> unit world" where
  "key_world answer =
    \<lparr>server_key = [1, 2, 3],
     transport_outcome = (\<lambda>host. None),
     auth_outcome = (\<lambda>host user password. None),
     exec_outcome = (\<lambda>cmd r. (Inr (answer cmd), r)),
     local_file = (\<lambda>path. Inr (demo_key @ nl)),
     decode_error_text = (\<lambda>bs. lit ''invalid start byte''),
     host_key_error_text = (\<lambda>host key. lit ''not found in known_hosts''),
     encode_error_text = (\<lambda>s. None)\<rparr>"

definition readonly_answer :: "pystr \<Rightarrow> channel" where
  "readonly_answer cmd =
    (if cmd = nvram_get_cmd then ok_channel [10] [] 0 else ok_channel [] [] 1)"

definition readonly_world :: "unit world" where
  "readonly_world = key_world readonly_answer"

definition garbled_world :: "unit world" where
  "garbled_world = key_world (\<lambda>cmd. ok_channel [0xFF] [] 0)"

text \<open>The run of \<open>ssh-helper.py\<close> gets to \<open>sys.exit(exit_code)\<close>: the success path.\<close>

definition reaches_exit :: "pystr list \<Rightarrow> 'r world \<Rightarrow> 'r \<Rightarrow> bool" where
  "reaches_exit argv w r \<longleftrightarrow>
     5 \<le> length argv \<and>
     (case fst (main_try w (argv ! 1) (argv ! 2) (argv ! 3) (argv ! 4) (start r)) of
        Inl (SysExit n) \<Rightarrow> True
      | _ \<Rightarrow> False)"

text \<open>A command whose output is the single byte \<open>0xFF\<close>, and one that writes to both streams.\<close>

definition undecodable_world :: "unit world" where
  "undecodable_world = fixed_world None None (Inr (ok_channel [0xFF] [] 0))"

definition both_streams_world :: "unit world" where
  "both_streams_world =
     fixed_world None None (Inr (ok_channel [0x6F, 0x75, 0x74, 0x0A] [0x65, 0x72, 0x72, 0x0A] 7))"


text \<open>Worlds in which the credentials are refused, the session drops, the host is unreachable.\<close>

definition auth_failure_world :: "unit world" where
  "auth_failure_world =
     fixed_world None (Some (AuthenticationException (lit ''Authentication failed.'')))
       (Inr (ok_channel [] [] 0))"

definition no_session_world :: "unit world" where
  "no_session_world =
     fixed_world None None (Inl (SSHException (lit ''SSH session not active'')))"

definition unreachable_world :: "unit world" where
  "unreachable_world =
     fixed_world (Some (OtherException (lit ''timed out''))) None (Inr (ok_channel [] [] 0))"

text \<open>
  A command that prints a right arrow (U+2192, three bytes in UTF-8) and exits with 7,
  run where the encoding of \<open>sys.stdout\<close> has no such character.
\<close>

definition arrow_error_text :: pystr where
  "arrow_error_text =
     [39] @ lit ''charmap'' @ [39] @ lit '' codec can'' @ [39] @ lit ''t encode character ''
     @ [39, 92] @ lit ''u2192'' @ [39] @ lit '' in position 0: character maps to <undefined>''"

definition narrow_stdout_world :: "unit world" where
  "narrow_stdout_world =
     (fixed_world None None (Inr (ok_channel [0xE2, 0x86, 0x92] [] 7)))
       \<lparr>encode_error_text := (\<lambda>s. if 0x2192 \<in> set s then Some arrow_error_text else None)\<rparr>"

text \<open>
  The calls of the \<open>try\<close> block of \<open>ssh-helper.py\<close> up to \<open>recv_exit_status\<close> all
  return: the connection is set up, \<open>exec_command\<close> returns a channel, and both streams
  are read and decode.
\<close>

definition calls_return :: "'r world \<Rightarrow> pystr \<Rightarrow> pystr \<Rightarrow> pystr \<Rightarrow> pystr \<Rightarrow> 'r \<Rightarrow> bool" where
  "calls_return w host user password command r \<longleftrightarrow>
     connect_ok w host user password \<and>
     (case fst (exec_outcome w command r) of
        Inl e \<Rightarrow> False
      | Inr ch \<Rightarrow>
          (case ch_stdout ch of
             Inl e \<Rightarrow> False
           | Inr ob \<Rightarrow>
               utf8_decode ob \<noteq> None \<and>
               (case ch_stderr ch of
                  Inl e \<Rightarrow> False
                | Inr eb \<Rightarrow> utf8_decode eb \<noteq> None)))"

section \<open>Properties\<close>

lemmas ops =
  bind_def new_client_def set_policy_def connect_def exec_command_def read_stdout_def
  read_stderr_def decode_def recv_exit_status_def close_def print_stdout_def print_stderr_def
  skip_def sys_exit_def log_def start_def host_key_check_def SSHClient_def
  set_missing_host_key_policy_def read_text_file_def

subsection \<open>The runs of the \<open>try\<close> block of \<open>ssh-helper.py\<close>\<close>

lemma main_try_transport:
  assumes "transport_outcome w host = Some e"
  shows "main_try w host user pw cmd (start r) =
    (Inl (Raise e),
     \<lparr>p_stdout = [], p_stderr = [],
      p_trace = [EvNewClient, EvSetPolicy AutoAddPolicy, EvConnect host user pw 15],
      p_open = False, p_remote = r\<rparr>)"
  using assms by (simp add: main_try_def ops connect_ok_def)

lemma main_try_auth:
  assumes "transport_outcome w host = None"
    "auth_outcome w host user pw = Some e"
  shows "main_try w host user pw cmd (start r) =
    (Inl (Raise e),
     \<lparr>p_stdout = [], p_stderr = [],
      p_trace = [EvNewClient, EvSetPolicy AutoAddPolicy, EvConnect host user pw 15],
      p_open = False, p_remote = r\<rparr>)"
  using assms by (simp add: main_try_def ops connect_ok_def)

lemma main_try_exec:
  assumes "connect_ok w host user pw"
    "exec_outcome w cmd r = (Inl e, r')"
  shows "main_try w host user pw cmd (start r) =
    (Inl (Raise e),
     \<lparr>p_stdout = [], p_stderr = [],
      p_trace = [EvNewClient, EvSetPolicy AutoAddPolicy, EvConnect host user pw 15, EvExec cmd],
      p_open = True, p_remote = r'\<rparr>)"
  using assms by (simp add: main_try_def ops connect_ok_def)

lemma main_try_read_stdout:
  assumes "connect_ok w host user pw"
    "exec_outcome w cmd r = (Inr ch, r')"
    "ch_stdout ch = Inl e"
  shows "main_try w host user pw cmd (start r) =
    (Inl (Raise e),
     \<lparr>p_stdout = [], p_stderr = [],
      p_trace = [EvNewClient, EvSetPolicy AutoAddPolicy, EvConnect host user pw 15, EvExec cmd, EvReadStdout],
      p_open = True, p_remote = r'\<rparr>)"
  using assms by (simp add: main_try_def ops connect_ok_def)

lemma main_try_decode_stdout:
  assumes "connect_ok w host user pw"
    "exec_outcome w cmd r = (Inr ch, r')"
    "ch_stdout ch = Inr ob"
    "utf8_decode ob = None"
  shows "main_try w host user pw cmd (start r) =
    (Inl (Raise (OtherException (decode_error_text w ob))),
     \<lparr>p_stdout = [], p_stderr = [],
      p_trace = [EvNewClient, EvSetPolicy AutoAddPolicy, EvConnect host user pw 15, EvExec cmd, EvReadStdout],
      p_open = True, p_remote = r'\<rparr>)"
  using assms by (simp add: main_try_def ops connect_ok_def)

lemma main_try_read_stderr:
  assumes "connect_ok w host user pw"
    "exec_outcome w cmd r = (Inr ch, r')"
    "ch_stdout ch = Inr ob"
    "utf8_decode ob = Some out"
    "ch_stderr ch = Inl e"
  shows "main_try w host user pw cmd (start r) =
    (Inl (Raise e),
     \<lparr>p_stdout = [], p_stderr = [],
      p_trace = [EvNewClient, EvSetPolicy AutoAddPolicy, EvConnect host user pw 15, EvExec cmd, EvReadStdout, EvReadStderr],
      p_open = True, p_remote = r'\<rparr>)"
  using assms by (simp add: main_try_def ops connect_ok_def)

lemma main_try_decode_stderr:
  assumes "connect_ok w host user pw"
    "exec_outcome w cmd r = (Inr ch, r')"
    "ch_stdout ch = Inr ob"
    "utf8_decode ob = Some out"
    "ch_stderr ch = Inr eb"
    "utf8_decode eb = None"
  shows "main_try w host user pw cmd (start r) =
    (Inl (Raise (OtherException (decode_error_text w eb))),
     \<lparr>p_stdout = [], p_stderr = [],
      p_trace = [EvNewClient, EvSetPolicy AutoAddPolicy, EvConnect host user pw 15, EvExec cmd, EvReadStdout, EvReadStderr],
      p_open = True, p_remote = r'\<rparr>)"
  using assms by (simp add: main_try_def ops connect_ok_def)

lemma main_try_print:
  assumes "connect_ok w host user pw"
    "exec_outcome w cmd r = (Inr ch, r')"
    "ch_stdout ch = Inr ob"
    "utf8_decode ob = Some out"
    "ch_stderr ch = Inr eb"
    "utf8_decode eb = Some err"
    "encode_error_text w out = Some m"
  shows "main_try w host user pw cmd (start r) =
    (Inl (Raise (OtherException m)),
     \<lparr>p_stdout = [], p_stderr = [],
      p_trace = [EvNewClient, EvSetPolicy AutoAddPolicy, EvConnect host user pw 15, EvExec cmd, EvReadStdout, EvReadStderr, EvExitStatus, EvClose],
      p_open = False, p_remote = r'\<rparr>)"
  using assms by (simp add: main_try_def ops connect_ok_def)

lemma main_try_success:
  assumes "connect_ok w host user pw"
    "exec_outcome w cmd r = (Inr ch, r')"
    "ch_stdout ch = Inr ob"
    "utf8_decode ob = Some out"
    "ch_stderr ch = Inr eb"
    "utf8_decode eb = Some err"
    "encode_error_text w out = None"
  shows "main_try w host user pw cmd (start r) =
    (Inl (SysExit (ch_exit_status ch)),
     \<lparr>p_stdout = [out], p_stderr = (if err = [] then [] else [err]),
      p_trace = [EvNewClient, EvSetPolicy AutoAddPolicy, EvConnect host user pw 15, EvExec cmd, EvReadStdout, EvReadStderr, EvExitStatus, EvClose],
      p_open = False, p_remote = r'\<rparr>)"
  using assms by (simp add: main_try_def ops connect_ok_def)

lemma main_try_cases [case_names transport auth exec read_stdout decode_stdout read_stderr
    decode_stderr print success]:
  obtains
    e where "transport_outcome w host = Some e"
  | e where "transport_outcome w host = None" "auth_outcome w host user pw = Some e"
  | e r' where "connect_ok w host user pw" "exec_outcome w cmd r = (Inl e, r')"
  | ch r' e where "connect_ok w host user pw" "exec_outcome w cmd r = (Inr ch, r')"
      "ch_stdout ch = Inl e"
  | ch r' ob where "connect_ok w host user pw" "exec_outcome w cmd r = (Inr ch, r')"
      "ch_stdout ch = Inr ob" "utf8_decode ob = None"
  | ch r' ob out e where "connect_ok w host user pw" "exec_outcome w cmd r = (Inr ch, r')"
      "ch_stdout ch = Inr ob" "utf8_decode ob = Some out" "ch_stderr ch = Inl e"
  | ch r' ob out eb where "connect_ok w host user pw" "exec_outcome w cmd r = (Inr ch, r')"
      "ch_stdout ch = Inr ob" "utf8_decode ob = Some out" "ch_stderr ch = Inr eb"
      "utf8_decode eb = None"
  | ch r' ob out eb err m where "connect_ok w host user pw"
      "exec_outcome w cmd r = (Inr ch, r')"
      "ch_stdout ch = Inr ob" "utf8_decode ob = Some out" "ch_stderr ch = Inr eb"
      "utf8_decode eb = Some err" "encode_error_text w out = Some m"
  | ch r' ob out eb err where "connect_ok w host user pw" "exec_outcome w cmd r = (Inr ch, r')"
      "ch_stdout ch = Inr ob" "utf8_decode ob = Some out" "ch_stderr ch = Inr eb"
      "utf8_decode eb = Some err" "encode_error_text w out = None"
proof (cases "transport_outcome w host")
  case (Some e)
  then show ?thesis using that(1) by blast
next
  case None
  note t = this
  show ?thesis
  proof (cases "auth_outcome w host user pw")
    case (Some e)
    then show ?thesis using that(2) t by blast
  next
    case None
    then have c: "connect_ok w host user pw" using t by (simp add: connect_ok_def)
    obtain x r' where x: "exec_outcome w cmd r = (x, r')" by (cases "exec_outcome w cmd r")
    show ?thesis
    proof (cases x)
      case (Inl e)
      then show ?thesis using that(3) c x by blast
    next
      case (Inr ch)
      note ch = x [unfolded Inr]
      show ?thesis
      proof (cases "ch_stdout ch")
        case (Inl e)
        then show ?thesis using that(4) c ch by blast
      next
        case (Inr ob)
        note ob = this
        show ?thesis
        proof (cases "utf8_decode ob")
          case None
          then show ?thesis using that(5) c ch ob by blast
        next
          case (Some out)
          note out = this
          show ?thesis
          proof (cases "ch_stderr ch")
            case (Inl e)
            then show ?thesis using that(6) c ch ob out by blast
          next
            case (Inr eb)
            note eb = this
            show ?thesis
            proof (cases "utf8_decode eb")
              case None
              then show ?thesis using that(7) c ch ob out eb by blast
            next
              case (Some err)
              then show ?thesis using that(8,9) c ch ob out eb
                by (cases "encode_error_text w out") blast+
            qed
          qed
        qed
      qed
    qed
  qed
qed

lemma calls_return_iff:
  "calls_return w host user pw cmd r \<longleftrightarrow>
     connect_ok w host user pw \<and>
     (\<exists>ch r' ob out eb err. exec_outcome w cmd r = (Inr ch, r') \<and> ch_stdout ch = Inr ob
        \<and> utf8_decode ob = Some out \<and> ch_stderr ch = Inr eb \<and> utf8_decode eb = Some err)"
  unfolding calls_return_def
  by (cases "exec_outcome w cmd r") (auto split: sum.splits)

text \<open>
  The three ways the \<open>try\<close> block ends: with an exception before \<open>close\<close>, with the
  exception of the \<open>print\<close> to stdout after \<open>close\<close>, or with \<open>sys.exit(exit_code)\<close>.
\<close>

lemma main_try_ends [case_names raised print exited]:
  obtains
    e p where "main_try w host user pw cmd (start r) = (Inl (Raise e), p)"
      "p_stdout p = []" "p_stderr p = []" "EvClose \<notin> set (p_trace p)"
      "EvExitStatus \<notin> set (p_trace p)" "p_open p \<longleftrightarrow> connect_ok w host user pw"
      "\<not> calls_return w host user pw cmd r"
  | ch r' ob out eb err m where "connect_ok w host user pw"
      "exec_outcome w cmd r = (Inr ch, r')"
      "ch_stdout ch = Inr ob" "utf8_decode ob = Some out" "ch_stderr ch = Inr eb"
      "utf8_decode eb = Some err" "encode_error_text w out = Some m"
  | ch r' ob out eb err where "connect_ok w host user pw" "exec_outcome w cmd r = (Inr ch, r')"
      "ch_stdout ch = Inr ob" "utf8_decode ob = Some out" "ch_stderr ch = Inr eb"
      "utf8_decode eb = Some err" "encode_error_text w out = None"
proof (cases rule: main_try_cases [where w = w and host = host and user = user and pw = pw
      and cmd = cmd and r = r])
  case (transport e)
  show ?thesis
    by (rule that(1) [OF main_try_transport [OF transport]])
      (simp_all add: connect_ok_def calls_return_def transport)
next
  case (auth e)
  show ?thesis
    by (rule that(1) [OF main_try_auth [OF auth]])
      (simp_all add: connect_ok_def calls_return_def auth)
next
  case (exec e r')
  show ?thesis
    by (rule that(1) [OF main_try_exec [OF exec]]) (simp_all add: calls_return_def exec)
next
  case (read_stdout ch r' e)
  show ?thesis
    by (rule that(1) [OF main_try_read_stdout [OF read_stdout]])
      (simp_all add: calls_return_def read_stdout)
next
  case (decode_stdout ch r' ob)
  show ?thesis
    by (rule that(1) [OF main_try_decode_stdout [OF decode_stdout]])
      (simp_all add: calls_return_def decode_stdout)
next
  case (read_stderr ch r' ob out e)
  show ?thesis
    by (rule that(1) [OF main_try_read_stderr [OF read_stderr]])
      (simp_all add: calls_return_def read_stderr)
next
  case (decode_stderr ch r' ob out eb)
  show ?thesis
    by (rule that(1) [OF main_try_decode_stderr [OF decode_stderr]])
      (simp_all add: calls_return_def decode_stderr)
next
  case (print ch r' ob out eb err m)
  then show ?thesis using that(2) by blast
next
  case (success ch r' ob out eb err)
  then show ?thesis using that(3) by blast
qed

lemma main_run:
  "5 \<le> length argv \<Longrightarrow>
     main argv w r = handlers (main_try w (argv ! 1) (argv ! 2) (argv ! 3) (argv ! 4) (start r))"
  by (simp add: main_def)

lemma main_trace:
  "p_trace (snd (main argv w r)) =
    (if length argv < 5 then []
     else p_trace (snd (main_try w (argv ! 1) (argv ! 2) (argv ! 3) (argv ! 4) (start r))))"
proof (cases "length argv < 5")
  case True
  then show ?thesis by (simp add: main_def start_def)
next
  case False
  obtain s p where sp: "main_try w (argv ! 1) (argv ! 2) (argv ! 3) (argv ! 4) (start r) = (s, p)"
    by (cases "main_try w (argv ! 1) (argv ! 2) (argv ! 3) (argv ! 4) (start r)")
  have "p_trace (snd (handlers (s, p))) = p_trace p"
    by (cases "(s, p)" rule: handlers.cases) simp_all
  with False sp show ?thesis by (simp add: main_def)
qed

text \<open>Every run of the \<open>try\<close> block starts with the same three calls, then \<open>exec_command\<close>.\<close>

lemma main_try_trace_start:
  "take 3 (p_trace (snd (main_try w host user pw cmd (start r)))) =
     [EvNewClient, EvSetPolicy AutoAddPolicy, EvConnect host user pw 15]"
  "connect_ok w host user pw \<Longrightarrow>
   take 4 (p_trace (snd (main_try w host user pw cmd (start r)))) =
     [EvNewClient, EvSetPolicy AutoAddPolicy, EvConnect host user pw 15, EvExec cmd]"
proof -
  show "take 3 (p_trace (snd (main_try w host user pw cmd (start r)))) =
     [EvNewClient, EvSetPolicy AutoAddPolicy, EvConnect host user pw 15]"
  proof (cases rule: main_try_cases [where w = w and host = host and user = user and pw = pw
        and cmd = cmd and r = r])
    case (transport e)
    show ?thesis unfolding main_try_transport [OF transport] by simp
  next
    case (auth e)
    show ?thesis unfolding main_try_auth [OF auth] by simp
  next
    case (exec e r')
    show ?thesis unfolding main_try_exec [OF exec] by simp
  next
    case (read_stdout ch r' e)
    show ?thesis unfolding main_try_read_stdout [OF read_stdout] by simp
  next
    case (decode_stdout ch r' ob)
    show ?thesis unfolding main_try_decode_stdout [OF decode_stdout] by simp
  next
    case (read_stderr ch r' ob out e)
    show ?thesis unfolding main_try_read_stderr [OF read_stderr] by simp
  next
    case (decode_stderr ch r' ob out eb)
    show ?thesis unfolding main_try_decode_stderr [OF decode_stderr] by simp
  next
    case (print ch r' ob out eb err m)
    show ?thesis unfolding main_try_print [OF print] by simp
  next
    case (success ch r' ob out eb err)
    show ?thesis unfolding main_try_success [OF success] by simp
  qed
next
  assume c: "connect_ok w host user pw"
  show "take 4 (p_trace (snd (main_try w host user pw cmd (start r)))) =
     [EvNewClient, EvSetPolicy AutoAddPolicy, EvConnect host user pw 15, EvExec cmd]"
  proof (cases rule: main_try_cases [where w = w and host = host and user = user and pw = pw
        and cmd = cmd and r = r])
    case (transport e)
    with c show ?thesis by (simp add: connect_ok_def)
  next
    case (auth e)
    with c show ?thesis by (simp add: connect_ok_def)
  next
    case (exec e r')
    show ?thesis unfolding main_try_exec [OF exec] by simp
  next
    case (read_stdout ch r' e)
    show ?thesis unfolding main_try_read_stdout [OF read_stdout] by simp
  next
    case (decode_stdout ch r' ob)
    show ?thesis unfolding main_try_decode_stdout [OF decode_stdout] by simp
  next
    case (read_stderr ch r' ob out e)
    show ?thesis unfolding main_try_read_stderr [OF read_stderr] by simp
  next
    case (decode_stderr ch r' ob out eb)
    show ?thesis unfolding main_try_decode_stderr [OF decode_stderr] by simp
  next
    case (print ch r' ob out eb err m)
    show ?thesis unfolding main_try_print [OF print] by simp
  next
    case (success ch r' ob out eb err)
    show ?thesis unfolding main_try_success [OF success] by simp
  qed
qed

text \<open>The remote side is left as \<open>exec_command(command)\<close> leaves it, if the connection is set up.\<close>

lemma main_try_remote:
  "p_remote (snd (main_try w host user pw cmd (start r))) =
     (if connect_ok w host user pw then snd (exec_outcome w cmd r) else r)"
proof (cases rule: main_try_cases [where w = w and host = host and user = user and pw = pw
      and cmd = cmd and r = r])
  case (transport e)
  show ?thesis unfolding main_try_transport [OF transport] using transport by (simp add: connect_ok_def)
next
  case (auth e)
  show ?thesis unfolding main_try_auth [OF auth] using auth by (simp add: connect_ok_def)
next
  case (exec e r')
  show ?thesis unfolding main_try_exec [OF exec] using exec by simp
next
  case (read_stdout ch r' e)
  show ?thesis unfolding main_try_read_stdout [OF read_stdout] using read_stdout by simp
next
  case (decode_stdout ch r' ob)
  show ?thesis unfolding main_try_decode_stdout [OF decode_stdout] using decode_stdout by simp
next
  case (read_stderr ch r' ob out e)
  show ?thesis unfolding main_try_read_stderr [OF read_stderr] using read_stderr by simp
next
  case (decode_stderr ch r' ob out eb)
  show ?thesis unfolding main_try_decode_stderr [OF decode_stderr] using decode_stderr by simp
next
  case (print ch r' ob out eb err m)
  show ?thesis unfolding main_try_print [OF print] using print by simp
next
  case (success ch r' ob out eb err)
  show ?thesis unfolding main_try_success [OF success] using success by simp
qed

lemma handlers_remote: "p_remote (snd (handlers x)) = p_remote (snd x)"
  by (cases x rule: handlers.cases) simp_all

lemma demo_args:
  "demo_argv ! 1 = lit ''router''" "demo_argv ! 2 = lit ''admin''"
  "demo_argv ! 3 = lit ''secret''" "demo_argv ! 4 = lit ''ls''" "length demo_argv = 5"
  by (simp_all add: demo_argv_def)

lemma demo_run:
  "main demo_argv w r =
     handlers (main_try w (lit ''router'') (lit ''admin'') (lit ''secret'') (lit ''ls'') (start r))"
  by (simp add: main_def demo_argv_def)

lemma demo_try:
  "main_try w (demo_argv ! 1) (demo_argv ! 2) (demo_argv ! 3) (demo_argv ! 4) =
   main_try w (lit ''router'') (lit ''admin'') (lit ''secret'') (lit ''ls'')"
  by (simp add: demo_argv_def)

lemma fixed_world_simps:
  "transport_outcome (fixed_world tr au ex) h = tr"
  "auth_outcome (fixed_world tr au ex) h u p = au"
  "exec_outcome (fixed_world tr au ex) c r = (ex, r)"
  "decode_error_text (fixed_world tr au ex) bs = lit ''invalid start byte''"
  "encode_error_text (fixed_world tr au ex) s = None"
  "connect_ok (fixed_world None None ex) h u p"
  by (simp_all add: fixed_world_def connect_ok_def)

lemma narrow_stdout_world_simps:
  "connect_ok narrow_stdout_world h u p"
  "exec_outcome narrow_stdout_world c r = (Inr (ok_channel [0xE2, 0x86, 0x92] [] 7), r)"
  "encode_error_text narrow_stdout_world [0x2192] = Some arrow_error_text"
  by (simp_all add: narrow_stdout_world_def fixed_world_def connect_ok_def)

lemma ok_channel_simps:
  "ch_stdout (ok_channel out err st) = Inr out"
  "ch_stderr (ok_channel out err st) = Inr err"
  "ch_exit_status (ok_channel out err st) = st"
  by (simp_all add: ok_channel_def)

lemma decode_out: "utf8_decode [0x6F, 0x75, 0x74, 0x0A] = Some (lit ''out'' @ nl)"
  by (simp add: lit_def nl_def)

lemma decode_err: "utf8_decode [0x65, 0x72, 0x72, 0x0A] = Some (lit ''err'' @ nl)"
  by (simp add: lit_def nl_def)

lemma decode_ff: "utf8_decode [0xFF] = None"
  by simp

lemma decode_arrow: "utf8_decode [0xE2, 0x86, 0x92] = Some [0x2192]"
  by (simp add: lo3_def hi3_def cont_def cbits_def)

lemma decode_empty: "utf8_decode [] = Some []"
  by simp

lemma both_streams_try:
  "main_try both_streams_world (lit ''router'') (lit ''admin'') (lit ''secret'') (lit ''ls'')
     (start ()) =
    (Inl (SysExit 7),
     \<lparr>p_stdout = [lit ''out'' @ nl], p_stderr = [lit ''err'' @ nl],
      p_trace = [EvNewClient, EvSetPolicy AutoAddPolicy,
                 EvConnect (lit ''router'') (lit ''admin'') (lit ''secret'') 15,
                 EvExec (lit ''ls''), EvReadStdout, EvReadStderr, EvExitStatus, EvClose],
      p_open = False, p_remote = ()\<rparr>)"
proof -
  let ?ch = "ok_channel [0x6F, 0x75, 0x74, 0x0A] [0x65, 0x72, 0x72, 0x0A] 7"
  have "main_try both_streams_world (lit ''router'') (lit ''admin'') (lit ''secret'')
      (lit ''ls'') (start ()) =
    (Inl (SysExit (ch_exit_status ?ch)),
     \<lparr>p_stdout = [lit ''out'' @ nl],
      p_stderr = (if lit ''err'' @ nl = [] then [] else [lit ''err'' @ nl]),
      p_trace = [EvNewClient, EvSetPolicy AutoAddPolicy,
                 EvConnect (lit ''router'') (lit ''admin'') (lit ''secret'') 15,
                 EvExec (lit ''ls''), EvReadStdout, EvReadStderr, EvExitStatus, EvClose],
      p_open = False, p_remote = ()\<rparr>)"
    by (rule main_try_success [where ob = "[0x6F, 0x75, 0x74, 0x0A]"
          and eb = "[0x65, 0x72, 0x72, 0x0A]"])
      (simp_all only: both_streams_world_def fixed_world_simps ok_channel_simps decode_out
        decode_err)
  then show ?thesis
    by (simp add: ok_channel_simps nl_def)
qed

lemma both_streams_run:
  "main demo_argv both_streams_world () =
    (Exit 7,
     \<lparr>p_stdout = [lit ''out'' @ nl], p_stderr = [lit ''err'' @ nl],
      p_trace = [EvNewClient, EvSetPolicy AutoAddPolicy,
                 EvConnect (lit ''router'') (lit ''admin'') (lit ''secret'') 15,
                 EvExec (lit ''ls''), EvReadStdout, EvReadStderr, EvExitStatus, EvClose],
      p_open = False, p_remote = ()\<rparr>)"
  unfolding demo_run both_streams_try by simp

lemma undecodable_try:
  "main_try undecodable_world (lit ''router'') (lit ''admin'') (lit ''secret'') (lit ''ls'')
      (start ()) =
    (Inl (Raise (OtherException (lit ''invalid start byte''))),
     \<lparr>p_stdout = [], p_stderr = [],
      p_trace = [EvNewClient, EvSetPolicy AutoAddPolicy,
                 EvConnect (lit ''router'') (lit ''admin'') (lit ''secret'') 15,
                 EvExec (lit ''ls''), EvReadStdout],
      p_open = True, p_remote = ()\<rparr>)"
proof -
  have "main_try undecodable_world (lit ''router'') (lit ''admin'') (lit ''secret'') (lit ''ls'')
      (start ()) =
    (Inl (Raise (OtherException (decode_error_text undecodable_world [0xFF]))),
     \<lparr>p_stdout = [], p_stderr = [],
      p_trace = [EvNewClient, EvSetPolicy AutoAddPolicy,
                 EvConnect (lit ''router'') (lit ''admin'') (lit ''secret'') 15,
                 EvExec (lit ''ls''), EvReadStdout],
      p_open = True, p_remote = ()\<rparr>)"
    by (rule main_try_decode_stdout [where ch = "ok_channel [0xFF] [] 0"])
      (simp_all only: undecodable_world_def fixed_world_simps ok_channel_simps decode_ff)
  then show ?thesis
    by (simp add: undecodable_world_def fixed_world_simps)
qed

lemma undecodable_run:
  "main demo_argv undecodable_world () =
    (Exit 255,
     \<lparr>p_stdout = [],
      p_stderr = [lit ''Connection error: '' @ lit ''invalid start byte'' @ nl],
      p_trace = [EvNewClient, EvSetPolicy AutoAddPolicy,
                 EvConnect (lit ''router'') (lit ''admin'') (lit ''secret'') 15,
                 EvExec (lit ''ls''), EvReadStdout],
      p_open = True, p_remote = ()\<rparr>)"
  unfolding demo_run undecodable_try by simp

lemma narrow_stdout_try:
  "main_try narrow_stdout_world (lit ''router'') (lit ''admin'') (lit ''secret'') (lit ''ls'')
      (start ()) =
    (Inl (Raise (OtherException arrow_error_text)),
     \<lparr>p_stdout = [], p_stderr = [],
      p_trace = [EvNewClient, EvSetPolicy AutoAddPolicy,
                 EvConnect (lit ''router'') (lit ''admin'') (lit ''secret'') 15,
                 EvExec (lit ''ls''), EvReadStdout, EvReadStderr, EvExitStatus, EvClose],
      p_open = False, p_remote = ()\<rparr>)"
proof -
  let ?ch = "ok_channel [0xE2, 0x86, 0x92] [] 7"
  have c: "connect_ok narrow_stdout_world (lit ''router'') (lit ''admin'') (lit ''secret'')"
    and x: "exec_outcome narrow_stdout_world (lit ''ls'') () = (Inr ?ch, ())"
    and so: "ch_stdout ?ch = Inr [0xE2, 0x86, 0x92]" and se: "ch_stderr ?ch = Inr []"
    and en: "encode_error_text narrow_stdout_world [0x2192] = Some arrow_error_text"
    by (simp_all add: narrow_stdout_world_simps ok_channel_simps)
  show ?thesis
    by (rule main_try_print [OF c x so decode_arrow se decode_empty en])
qed

lemma narrow_stdout_run:
  "main demo_argv narrow_stdout_world () =
    (Exit 255,
     \<lparr>p_stdout = [],
      p_stderr = [lit ''Connection error: '' @ arrow_error_text @ nl],
      p_trace = [EvNewClient, EvSetPolicy AutoAddPolicy,
                 EvConnect (lit ''router'') (lit ''admin'') (lit ''secret'') 15,
                 EvExec (lit ''ls''), EvReadStdout, EvReadStderr, EvExitStatus, EvClose],
      p_open = False, p_remote = ()\<rparr>)"
  unfolding demo_run narrow_stdout_try by simp



text \<open>
  C8: \<open>main\<close> uses \<open>sys.argv[1]\<close> to \<open>sys.argv[4]\<close> as host, user, password and
  command, and nothing else of \<open>sys.argv\<close>. The run is that of the \<open>try\<close> block on these
  four, whatever the program name and the arguments after the fourth are; its first
  calls are \<open>connect(host, username=user, password=password, timeout=15)\<close> on a client
  with \<open>AutoAddPolicy\<close> and, once the connection is set up, \<open>exec_command(command)\<close>;
  the remote side ends as \<open>command\<close> leaves it, and untouched without a connection.
\<close>

theorem first_four_arguments_used:
  "main (prog # host # user # password # command # extra) w r =
     main [prog', host, user, password, command] w r
   \<and> main (prog # host # user # password # command # extra) w r =
     handlers (main_try w host user password command (start r))
   \<and> take 3 (p_trace (snd (main (prog # host # user # password # command # extra) w r))) =
     [EvNewClient, EvSetPolicy AutoAddPolicy, EvConnect host user password 15]
   \<and> (connect_ok w host user password \<longrightarrow>
       take 4 (p_trace (snd (main (prog # host # user # password # command # extra) w r))) =
         [EvNewClient, EvSetPolicy AutoAddPolicy, EvConnect host user password 15,
          EvExec command])
   \<and> p_remote (snd (main (prog # host # user # password # command # extra) w r)) =
       (if connect_ok w host user password then snd (exec_outcome w command r) else r)"
proof (intro conjI impI)
  show "p_remote (snd (main (prog # host # user # password # command # extra) w r)) =
       (if connect_ok w host user password then snd (exec_outcome w command r) else r)"
    by (simp add: main_def handlers_remote main_try_remote)
  show "main (prog # host # user # password # command # extra) w r =
     main [prog', host, user, password, command] w r"
    by (simp add: main_def)
  show "main (prog # host # user # password # command # extra) w r =
     handlers (main_try w host user password command (start r))"
    by (simp add: main_def)
  show "take 3 (p_trace (snd (main (prog # host # user # password # command # extra) w r))) =
     [EvNewClient, EvSetPolicy AutoAddPolicy, EvConnect host user password 15]"
    using main_try_trace_start(1) [of w host user password command r]
    by (simp add: main_trace)
next
  assume "connect_ok w host user password"
  from main_try_trace_start(2) [OF this, of command r]
  show "take 4 (p_trace (snd (main (prog # host # user # password # command # extra) w r))) =
         [EvNewClient, EvSetPolicy AutoAddPolicy, EvConnect host user password 15,
          EvExec command]"
    by (simp add: main_trace)
qed

theorem first_four_arguments_witness:
  "main (lit ''ssh-helper.py'' # lit ''router'' # lit ''admin'' # lit ''secret'' # lit ''ls''
         # [lit ''-l'', lit ''/tmp''])
      both_streams_world () =
   main demo_argv both_streams_world ()
   \<and> connect_ok both_streams_world (lit ''router'') (lit ''admin'') (lit ''secret'')
   \<and> take 4 (p_trace (snd (main (lit ''ssh-helper.py'' # lit ''router'' # lit ''admin''
         # lit ''secret'' # lit ''ls'' # [lit ''-l'', lit ''/tmp'']) both_streams_world ()))) =
       [EvNewClient, EvSetPolicy AutoAddPolicy,
        EvConnect (lit ''router'') (lit ''admin'') (lit ''secret'') 15, EvExec (lit ''ls'')]
   \<and> fst (main demo_argv both_streams_world ()) = Exit 7"
proof -
  have c: "connect_ok both_streams_world (lit ''router'') (lit ''admin'') (lit ''secret'')"
    by (simp add: both_streams_world_def fixed_world_simps)
  from first_four_arguments_used [where prog = "lit ''ssh-helper.py''" and host = "lit ''router''"
      and user = "lit ''admin''" and password = "lit ''secret''" and command = "lit ''ls''"
      and extra = "[lit ''-l'', lit ''/tmp'']" and prog' = "lit ''ssh-helper.py''"
      and w = both_streams_world and r = "()"] c
  show ?thesis
    by (simp add: demo_argv_def [symmetric] both_streams_run)
qed

text \<open>
  C1, as amended: when the connection is set up, \<open>exec_command\<close> returns, both streams
  are read and both decode as UTF-8, and \<open>sys.stdout\<close> can encode the decoded stdout,
  the decoded stdout is printed as it is (one write, nothing added), the decoded stderr
  is printed only if it is not empty, and the exit code is the remote exit status.
\<close>

theorem relay_when_output_decodes:
  assumes "5 \<le> length argv" "connect_ok w (argv ! 1) (argv ! 2) (argv ! 3)"
    "exec_outcome w (argv ! 4) r = (Inr ch, r')"
    "ch_stdout ch = Inr ob" "utf8_decode ob = Some out"
    "ch_stderr ch = Inr eb" "utf8_decode eb = Some err"
    "encode_error_text w out = None"
  shows "fst (main argv w r) = Exit (ch_exit_status ch)
    \<and> p_stdout (snd (main argv w r)) = [out]
    \<and> p_stderr (snd (main argv w r)) = (if err = [] then [] else [err])"
proof -
  have "main argv w r = handlers (Inl (SysExit (ch_exit_status ch)),
     \<lparr>p_stdout = [out], p_stderr = (if err = [] then [] else [err]),
      p_trace = [EvNewClient, EvSetPolicy AutoAddPolicy,
                 EvConnect (argv ! 1) (argv ! 2) (argv ! 3) 15, EvExec (argv ! 4),
                 EvReadStdout, EvReadStderr, EvExitStatus, EvClose],
      p_open = False, p_remote = r'\<rparr>)"
    by (simp only: main_run [OF assms(1)] main_try_success [OF assms(2-8)])
  then show ?thesis by simp
qed

theorem relay_exit_7_witness:
  "5 \<le> length demo_argv
   \<and> connect_ok both_streams_world (demo_argv ! 1) (demo_argv ! 2) (demo_argv ! 3)
   \<and> encode_error_text both_streams_world (lit ''out'' @ nl) = None
   \<and> fst (main demo_argv both_streams_world ()) = Exit 7
   \<and> p_stdout (snd (main demo_argv both_streams_world ())) = [lit ''out'' @ nl]
   \<and> p_stderr (snd (main demo_argv both_streams_world ())) = [lit ''err'' @ nl]"
proof -
  let ?ch = "ok_channel [0x6F, 0x75, 0x74, 0x0A] [0x65, 0x72, 0x72, 0x0A] 7"
  have a: "5 \<le> length demo_argv"
    by (simp add: demo_args)
  have b: "connect_ok both_streams_world (demo_argv ! 1) (demo_argv ! 2) (demo_argv ! 3)"
    by (simp add: both_streams_world_def fixed_world_simps)
  have c: "exec_outcome both_streams_world (demo_argv ! 4) () = (Inr ?ch, ())"
    by (simp add: both_streams_world_def fixed_world_simps)
  have d: "ch_stdout ?ch = Inr [0x6F, 0x75, 0x74, 0x0A]"
    and e: "ch_stderr ?ch = Inr [0x65, 0x72, 0x72, 0x0A]"
    by (simp_all add: ok_channel_simps)
  have f: "encode_error_text both_streams_world (lit ''out'' @ nl) = None"
    by (simp add: both_streams_world_def fixed_world_simps)
  from relay_when_output_decodes [OF a b c d decode_out e decode_err f] a b f
  show ?thesis
    by (simp add: ok_channel_simps nl_def)
qed

text \<open>
  C1 as stated fails, in two ways. Connect and \<open>exec_command\<close> succeed and the remote
  command exits with 0, but its output is not UTF-8: nothing is printed on stdout and the
  exit code is 255. And connect and \<open>exec_command\<close> succeed, the command prints a right
  arrow and exits with 7, but \<open>sys.stdout\<close> cannot encode the arrow: again nothing is
  printed on stdout and the exit code is 255.
\<close>

theorem relay_counterexample:
  "connect_ok undecodable_world (demo_argv ! 1) (demo_argv ! 2) (demo_argv ! 3)
   \<and> exec_outcome undecodable_world (demo_argv ! 4) () = (Inr (ok_channel [0xFF] [] 0), ())
   \<and> ch_exit_status (ok_channel [0xFF] [] 0) = 0
   \<and> fst (main demo_argv undecodable_world ()) = Exit 255
   \<and> p_stdout (snd (main demo_argv undecodable_world ())) = []
   \<and> connect_ok narrow_stdout_world (demo_argv ! 1) (demo_argv ! 2) (demo_argv ! 3)
   \<and> exec_outcome narrow_stdout_world (demo_argv ! 4) () =
       (Inr (ok_channel [0xE2, 0x86, 0x92] [] 7), ())
   \<and> utf8_decode [0xE2, 0x86, 0x92] = Some [0x2192]
   \<and> ch_exit_status (ok_channel [0xE2, 0x86, 0x92] [] 7) = 7
   \<and> fst (main demo_argv narrow_stdout_world ()) = Exit 255
   \<and> p_stdout (snd (main demo_argv narrow_stdout_world ())) = []"
proof -
  have "connect_ok undecodable_world (demo_argv ! 1) (demo_argv ! 2) (demo_argv ! 3)"
    and "exec_outcome undecodable_world (demo_argv ! 4) () = (Inr (ok_channel [0xFF] [] 0), ())"
    by (simp_all add: undecodable_world_def fixed_world_simps)
  moreover have "ch_exit_status (ok_channel [0xFF] [] 0) = 0"
    and "ch_exit_status (ok_channel [0xE2, 0x86, 0x92] [] 7) = 7"
    by (simp_all add: ok_channel_simps)
  moreover have "fst (main demo_argv undecodable_world ()) = Exit 255"
    and "p_stdout (snd (main demo_argv undecodable_world ())) = []"
    by (simp_all add: undecodable_run)
  moreover have "fst (main demo_argv narrow_stdout_world ()) = Exit 255"
    and "p_stdout (snd (main demo_argv narrow_stdout_world ())) = []"
    by (simp_all add: narrow_stdout_run)
  moreover note narrow_stdout_world_simps(1,2) decode_arrow
  ultimately show ?thesis
    by blast
qed

subsection \<open>The runs of \<open>add_key_nvram.py\<close>\<close>

lemma add_key_file:
  assumes "local_file w key_path = Inl e"
  shows "add_key_body w (start r) =
    (Inl (Raise e),
     \<lparr>p_stdout = [], p_stderr = [],
      p_trace = [],
      p_open = False, p_remote = r\<rparr>)"
  using assms by (simp add: add_key_body_def ops connect_ok_def Let_def)

lemma add_key_transport:
  assumes "local_file w key_path = Inr raw"
    "transport_outcome w router_host = Some e"
  shows "add_key_body w (start r) =
    (Inl (Raise e),
     \<lparr>p_stdout = [], p_stderr = [],
      p_trace = [EvNewClient, EvSetPolicy AutoAddPolicy,
        EvConnect router_host router_user router_password 10],
      p_open = False, p_remote = r\<rparr>)"
  using assms by (simp add: add_key_body_def ops connect_ok_def Let_def)

lemma add_key_auth:
  assumes "local_file w key_path = Inr raw"
    "transport_outcome w router_host = None"
    "auth_outcome w router_host router_user router_password = Some e"
  shows "add_key_body w (start r) =
    (Inl (Raise e),
     \<lparr>p_stdout = [], p_stderr = [],
      p_trace = [EvNewClient, EvSetPolicy AutoAddPolicy,
        EvConnect router_host router_user router_password 10],
      p_open = False, p_remote = r\<rparr>)"
  using assms by (simp add: add_key_body_def ops connect_ok_def Let_def)

lemma add_key_exec_nvram:
  assumes "local_file w key_path = Inr raw"
    "connect_ok w router_host router_user router_password"
    "exec_outcome w nvram_get_cmd r = (Inl e, r1)"
  shows "add_key_body w (start r) =
    (Inl (Raise e),
     \<lparr>p_stdout = [], p_stderr = [],
      p_trace = [EvNewClient, EvSetPolicy AutoAddPolicy,
        EvConnect router_host router_user router_password 10,
        EvExec nvram_get_cmd],
      p_open = True, p_remote = r1\<rparr>)"
  using assms by (simp add: add_key_body_def ops connect_ok_def Let_def)

lemma add_key_read_nvram:
  assumes "local_file w key_path = Inr raw"
    "connect_ok w router_host router_user router_password"
    "exec_outcome w nvram_get_cmd r = (Inr ch, r1)"
    "ch_stdout ch = Inl e"
  shows "add_key_body w (start r) =
    (Inl (Raise e),
     \<lparr>p_stdout = [], p_stderr = [],
      p_trace = [EvNewClient, EvSetPolicy AutoAddPolicy,
        EvConnect router_host router_user router_password 10,
        EvExec nvram_get_cmd, EvReadStdout],
      p_open = True, p_remote = r1\<rparr>)"
  using assms by (simp add: add_key_body_def ops connect_ok_def Let_def)

lemma add_key_decode_nvram:
  assumes "local_file w key_path = Inr raw"
    "connect_ok w router_host router_user router_password"
    "exec_outcome w nvram_get_cmd r = (Inr ch, r1)"
    "ch_stdout ch = Inr bs"
    "utf8_decode bs = None"
  shows "add_key_body w (start r) =
    (Inl (Raise (OtherException (decode_error_text w bs))),
     \<lparr>p_stdout = [], p_stderr = [],
      p_trace = [EvNewClient, EvSetPolicy AutoAddPolicy,
        EvConnect router_host router_user router_password 10,
        EvExec nvram_get_cmd, EvReadStdout],
      p_open = True, p_remote = r1\<rparr>)"
  using assms by (simp add: add_key_body_def ops connect_ok_def Let_def)

lemma add_key_print_already:
  assumes "local_file w key_path = Inr raw"
    "connect_ok w router_host router_user router_password"
    "exec_outcome w nvram_get_cmd r = (Inr ch, r1)"
    "ch_stdout ch = Inr bs"
    "utf8_decode bs = Some s"
    "py_in (strip raw) (strip s)"
    "encode_error_text w (already_msg @ nl) = Some m"
  shows "add_key_body w (start r) =
    (Inl (Raise (OtherException m)),
     \<lparr>p_stdout = [], p_stderr = [],
      p_trace = [EvNewClient, EvSetPolicy AutoAddPolicy,
        EvConnect router_host router_user router_password 10,
        EvExec nvram_get_cmd, EvReadStdout],
      p_open = True, p_remote = r1\<rparr>)"
  using assms by (simp add: add_key_body_def ops connect_ok_def Let_def)

lemma add_key_already:
  assumes "local_file w key_path = Inr raw"
    "connect_ok w router_host router_user router_password"
    "exec_outcome w nvram_get_cmd r = (Inr ch, r1)"
    "ch_stdout ch = Inr bs"
    "utf8_decode bs = Some s"
    "py_in (strip raw) (strip s)"
    "encode_error_text w (already_msg @ nl) = None"
  shows "add_key_body w (start r) =
    (Inr (),
     \<lparr>p_stdout = [already_msg @ nl], p_stderr = [],
      p_trace = [EvNewClient, EvSetPolicy AutoAddPolicy,
        EvConnect router_host router_user router_password 10,
        EvExec nvram_get_cmd, EvReadStdout, EvClose],
      p_open = False, p_remote = r1\<rparr>)"
  using assms by (simp add: add_key_body_def ops connect_ok_def Let_def)

lemma add_key_exec_jffs:
  assumes "local_file w key_path = Inr raw"
    "connect_ok w router_host router_user router_password"
    "exec_outcome w nvram_get_cmd r = (Inr ch, r1)"
    "ch_stdout ch = Inr bs"
    "utf8_decode bs = Some s"
    "\<not> py_in (strip raw) (strip s)"
    "exec_outcome w (jffs_cmd (strip raw)) r1 = (Inl e, r2)"
  shows "add_key_body w (start r) =
    (Inl (Raise e),
     \<lparr>p_stdout = [], p_stderr = [],
      p_trace = [EvNewClient, EvSetPolicy AutoAddPolicy,
        EvConnect router_host router_user router_password 10,
        EvExec nvram_get_cmd, EvReadStdout, EvExec (jffs_cmd (strip raw))],
      p_open = True, p_remote = r2\<rparr>)"
  using assms by (simp add: add_key_body_def ops connect_ok_def Let_def)

lemma add_key_read_jffs:
  assumes "local_file w key_path = Inr raw"
    "connect_ok w router_host router_user router_password"
    "exec_outcome w nvram_get_cmd r = (Inr ch, r1)"
    "ch_stdout ch = Inr bs"
    "utf8_decode bs = Some s"
    "\<not> py_in (strip raw) (strip s)"
    "exec_outcome w (jffs_cmd (strip raw)) r1 = (Inr ch1, r2)"
    "ch_stdout ch1 = Inl e"
  shows "add_key_body w (start r) =
    (Inl (Raise e),
     \<lparr>p_stdout = [], p_stderr = [],
      p_trace = [EvNewClient, EvSetPolicy AutoAddPolicy,
        EvConnect router_host router_user router_password 10,
        EvExec nvram_get_cmd, EvReadStdout, EvExec (jffs_cmd (strip raw)), EvReadStdout],
      p_open = True, p_remote = r2\<rparr>)"
  using assms by (simp add: add_key_body_def ops connect_ok_def Let_def)

lemma add_key_read_jffs_err:
  assumes "local_file w key_path = Inr raw"
    "connect_ok w router_host router_user router_password"
    "exec_outcome w nvram_get_cmd r = (Inr ch, r1)"
    "ch_stdout ch = Inr bs"
    "utf8_decode bs = Some s"
    "\<not> py_in (strip raw) (strip s)"
    "exec_outcome w (jffs_cmd (strip raw)) r1 = (Inr ch1, r2)"
    "ch_stdout ch1 = Inr o1"
    "ch_stderr ch1 = Inl e"
  shows "add_key_body w (start r) =
    (Inl (Raise e),
     \<lparr>p_stdout = [], p_stderr = [],
      p_trace = [EvNewClient, EvSetPolicy AutoAddPolicy,
        EvConnect router_host router_user router_password 10,
        EvExec nvram_get_cmd, EvReadStdout, EvExec (jffs_cmd (strip raw)), EvReadStdout, EvReadStderr],
      p_open = True, p_remote = r2\<rparr>)"
  using assms by (simp add: add_key_body_def ops connect_ok_def Let_def)

lemma add_key_exec_dropbear:
  assumes "local_file w key_path = Inr raw"
    "connect_ok w router_host router_user router_password"
    "exec_outcome w nvram_get_cmd r = (Inr ch, r1)"
    "ch_stdout ch = Inr bs"
    "utf8_decode bs = Some s"
    "\<not> py_in (strip raw) (strip s)"
    "exec_outcome w (jffs_cmd (strip raw)) r1 = (Inr ch1, r2)"
    "ch_stdout ch1 = Inr o1"
    "ch_stderr ch1 = Inr e1"
    "exec_outcome w (dropbear_cmd (strip raw)) r2 = (Inl e, r3)"
  shows "add_key_body w (start r) =
    (Inl (Raise e),
     \<lparr>p_stdout = [], p_stderr = [],
      p_trace = [EvNewClient, EvSetPolicy AutoAddPolicy,
        EvConnect router_host router_user router_password 10,
        EvExec nvram_get_cmd, EvReadStdout, EvExec (jffs_cmd (strip raw)), EvReadStdout, EvReadStderr, EvExec (dropbear_cmd (strip raw))],
      p_open = True, p_remote = r3\<rparr>)"
  using assms by (simp add: add_key_body_def ops connect_ok_def Let_def)

lemma add_key_read_dropbear:
  assumes "local_file w key_path = Inr raw"
    "connect_ok w router_host router_user router_password"
    "exec_outcome w nvram_get_cmd r = (Inr ch, r1)"
    "ch_stdout ch = Inr bs"
    "utf8_decode bs = Some s"
    "\<not> py_in (strip raw) (strip s)"
    "exec_outcome w (jffs_cmd (strip raw)) r1 = (Inr ch1, r2)"
    "ch_stdout ch1 = Inr o1"
    "ch_stderr ch1 = Inr e1"
    "exec_outcome w (dropbear_cmd (strip raw)) r2 = (Inr ch2, r3)"
    "ch_stdout ch2 = Inl e"
  shows "add_key_body w (start r) =
    (Inl (Raise e),
     \<lparr>p_stdout = [], p_stderr = [],
      p_trace = [EvNewClient, EvSetPolicy AutoAddPolicy,
        EvConnect router_host router_user router_password 10,
        EvExec nvram_get_cmd, EvReadStdout, EvExec (jffs_cmd (strip raw)), EvReadStdout, EvReadStderr, EvExec (dropbear_cmd (strip raw)), EvReadStdout],
      p_open = True, p_remote = r3\<rparr>)"
  using assms by (simp add: add_key_body_def ops connect_ok_def Let_def)

lemma add_key_print_added:
  assumes "local_file w key_path = Inr raw"
    "connect_ok w router_host router_user router_password"
    "exec_outcome w nvram_get_cmd r = (Inr ch, r1)"
    "ch_stdout ch = Inr bs"
    "utf8_decode bs = Some s"
    "\<not> py_in (strip raw) (strip s)"
    "exec_outcome w (jffs_cmd (strip raw)) r1 = (Inr ch1, r2)"
    "ch_stdout ch1 = Inr o1"
    "ch_stderr ch1 = Inr e1"
    "exec_outcome w (dropbear_cmd (strip raw)) r2 = (Inr ch2, r3)"
    "ch_stdout ch2 = Inr o2"
    "encode_error_text w (added_msg @ nl) = Some m"
  shows "add_key_body w (start r) =
    (Inl (Raise (OtherException m)),
     \<lparr>p_stdout = [], p_stderr = [],
      p_trace = [EvNewClient, EvSetPolicy AutoAddPolicy,
        EvConnect router_host router_user router_password 10,
        EvExec nvram_get_cmd, EvReadStdout, EvExec (jffs_cmd (strip raw)), EvReadStdout, EvReadStderr, EvExec (dropbear_cmd (strip raw)), EvReadStdout],
      p_open = True, p_remote = r3\<rparr>)"
  using assms by (simp add: add_key_body_def ops connect_ok_def Let_def)

lemma add_key_added:
  assumes "local_file w key_path = Inr raw"
    "connect_ok w router_host router_user router_password"
    "exec_outcome w nvram_get_cmd r = (Inr ch, r1)"
    "ch_stdout ch = Inr bs"
    "utf8_decode bs = Some s"
    "\<not> py_in (strip raw) (strip s)"
    "exec_outcome w (jffs_cmd (strip raw)) r1 = (Inr ch1, r2)"
    "ch_stdout ch1 = Inr o1"
    "ch_stderr ch1 = Inr e1"
    "exec_outcome w (dropbear_cmd (strip raw)) r2 = (Inr ch2, r3)"
    "ch_stdout ch2 = Inr o2"
    "encode_error_text w (added_msg @ nl) = None"
  shows "add_key_body w (start r) =
    (Inr (),
     \<lparr>p_stdout = [added_msg @ nl], p_stderr = [],
      p_trace = [EvNewClient, EvSetPolicy AutoAddPolicy,
        EvConnect router_host router_user router_password 10,
        EvExec nvram_get_cmd, EvReadStdout, EvExec (jffs_cmd (strip raw)), EvReadStdout, EvReadStderr, EvExec (dropbear_cmd (strip raw)), EvReadStdout, EvClose],
      p_open = False, p_remote = r3\<rparr>)"
  using assms by (simp add: add_key_body_def ops connect_ok_def Let_def)

text \<open>
  The three ways the script ends: with an exception (always before \<open>close\<close>, its last
  statement), after \<open>Key already in nvram\<close>, or after \<open>Key added ...\<close>.
\<close>

lemma add_key_ends [case_names raised already added]:
  obtains
    e p where "add_key_body w (start r) = (Inl (Raise e), p)"
      "p_stdout p = []" "EvClose \<notin> set (p_trace p)" "EvExitStatus \<notin> set (p_trace p)"
      "p_open p \<longleftrightarrow>
         (\<exists>raw. local_file w key_path = Inr raw)
         \<and> connect_ok w router_host router_user router_password"
      "\<forall>h u pw t. EvConnect h u pw t \<in> set (p_trace p) \<longrightarrow>
         precedes (EvSetPolicy AutoAddPolicy) (EvConnect h u pw t) (p_trace p)"
  | raw ch r1 bs s where "local_file w key_path = Inr raw"
      "connect_ok w router_host router_user router_password"
      "exec_outcome w nvram_get_cmd r = (Inr ch, r1)" "ch_stdout ch = Inr bs"
      "utf8_decode bs = Some s" "py_in (strip raw) (strip s)"
      "encode_error_text w (already_msg @ nl) = None"
  | raw ch r1 bs s ch1 r2 o1 e1 ch2 r3 o2 where "local_file w key_path = Inr raw"
      "connect_ok w router_host router_user router_password"
      "exec_outcome w nvram_get_cmd r = (Inr ch, r1)" "ch_stdout ch = Inr bs"
      "utf8_decode bs = Some s" "\<not> py_in (strip raw) (strip s)"
      "exec_outcome w (jffs_cmd (strip raw)) r1 = (Inr ch1, r2)" "ch_stdout ch1 = Inr o1"
      "ch_stderr ch1 = Inr e1"
      "exec_outcome w (dropbear_cmd (strip raw)) r2 = (Inr ch2, r3)" "ch_stdout ch2 = Inr o2"
      "encode_error_text w (added_msg @ nl) = None"
proof (cases "local_file w key_path")
  case (Inl e)
  show ?thesis
    by (rule that(1) [OF add_key_file [OF Inl]]) (simp_all add: Inl)
next
  case (Inr raw)
  note f = this
  show ?thesis
  proof (cases "transport_outcome w router_host")
    case (Some e)
    show ?thesis
      by (rule that(1) [OF add_key_transport [OF f Some]]) (simp_all add: f Some connect_ok_def)
  next
    case None
    note t = this
    show ?thesis
    proof (cases "auth_outcome w router_host router_user router_password")
      case (Some e)
      show ?thesis
        by (rule that(1) [OF add_key_auth [OF f t Some]]) (simp_all add: f t Some connect_ok_def)
    next
      case None
      with t have c: "connect_ok w router_host router_user router_password"
        by (simp add: connect_ok_def)
      show ?thesis
      proof (cases "exec_outcome w (nvram_get_cmd) r")
        case (Pair xex r1)
        note x = this
        show ?thesis
        proof (cases xex)
          case (Inl e)
          note exf = x [unfolded Inl]
          show ?thesis
            by (rule that(1) [OF add_key_exec_nvram [OF f c exf]]) (simp_all add: f c exf)
        next
          case (Inr ch)
          note ex = x [unfolded Inr]
          show ?thesis
          proof (cases "ch_stdout ch")
            case (Inl e)
            show ?thesis
              by (rule that(1) [OF add_key_read_nvram [OF f c ex Inl]]) (simp_all add: f c ex Inl)
          next
            case (Inr bs)
            note rd = this
            show ?thesis
            proof (cases "utf8_decode bs")
              case None
              show ?thesis
                by (rule that(1) [OF add_key_decode_nvram [OF f c ex rd None]]) (simp_all add: f c ex rd None)
            next
              case (Some s)
              note dc = this
              show ?thesis
              proof (cases "py_in (strip raw) (strip s)")
                case True
                show ?thesis
                proof (cases "encode_error_text w (already_msg @ nl)")
                  case None
                  show ?thesis
                    by (rule that(2) [OF f c ex rd dc True None])
                next
                  case (Some m)
                  show ?thesis
                    by (rule that(1) [OF add_key_print_already [OF f c ex rd dc True Some]]) (simp_all add: f c ex rd dc True Some)
                qed
              next
                case False
                note nin = this
                show ?thesis
                proof (cases "exec_outcome w (jffs_cmd (strip raw)) r1")
                  case (Pair xej r2)
                  note x = this
                  show ?thesis
                  proof (cases xej)
                    case (Inl e)
                    note ejf = x [unfolded Inl]
                    show ?thesis
                      by (rule that(1) [OF add_key_exec_jffs [OF f c ex rd dc nin ejf]]) (simp_all add: f c ex rd dc nin ejf)
                  next
                    case (Inr ch1)
                    note ej = x [unfolded Inr]
                    show ?thesis
                    proof (cases "ch_stdout ch1")
                      case (Inl e)
                      show ?thesis
                        by (rule that(1) [OF add_key_read_jffs [OF f c ex rd dc nin ej Inl]]) (simp_all add: f c ex rd dc nin ej Inl)
                    next
                      case (Inr o1)
                      note rj = this
                      show ?thesis
                      proof (cases "ch_stderr ch1")
                        case (Inl e)
                        show ?thesis
                          by (rule that(1) [OF add_key_read_jffs_err [OF f c ex rd dc nin ej rj Inl]]) (simp_all add: f c ex rd dc nin ej rj Inl)
                      next
                        case (Inr e1)
                        note rje = this
                        show ?thesis
                        proof (cases "exec_outcome w (dropbear_cmd (strip raw)) r2")
                          case (Pair xed r3)
                          note x = this
                          show ?thesis
                          proof (cases xed)
                            case (Inl e)
                            note edf = x [unfolded Inl]
                            show ?thesis
                              by (rule that(1) [OF add_key_exec_dropbear [OF f c ex rd dc nin ej rj rje edf]]) (simp_all add: f c ex rd dc nin ej rj rje edf)
                          next
                            case (Inr ch2)
                            note ed = x [unfolded Inr]
                            show ?thesis
                            proof (cases "ch_stdout ch2")
                              case (Inl e)
                              show ?thesis
                                by (rule that(1) [OF add_key_read_dropbear [OF f c ex rd dc nin ej rj rje ed Inl]]) (simp_all add: f c ex rd dc nin ej rj rje ed Inl)
                            next
                              case (Inr o2)
                              note rdd = this
                              show ?thesis
                              proof (cases "encode_error_text w (added_msg @ nl)")
                                case None
                                show ?thesis
                                  by (rule that(3) [OF f c ex rd dc nin ej rj rje ed rdd None])
                              next
                                case (Some m)
                                show ?thesis
                                  by (rule that(1) [OF add_key_print_added [OF f c ex rd dc nin ej rj rje ed rdd Some]]) (simp_all add: f c ex rd dc nin ej rj rje ed rdd Some)
                              qed
                            qed
                          qed
                        qed
                      qed
                    qed
                  qed
                qed
              qed
            qed
          qed
        qed
      qed
    qed
  qed
qed

lemma add_key_run:
  "add_key_body w (start r) = (Inr (), p) \<Longrightarrow> add_key w r = (Exit 0, p)"
  "add_key_body w (start r) = (Inl (Raise e), p) \<Longrightarrow> add_key w r = (Uncaught e, p)"
  by (simp_all add: add_key_def)

lemma add_key_trace:
  "p_trace (snd (add_key w r)) = p_trace (snd (add_key_body w (start r)))"
  by (simp add: add_key_def split: prod.splits sum.splits signal.splits)

lemma add_key_state:
  "p_open (snd (add_key w r)) = p_open (snd (add_key_body w (start r)))"
  by (simp add: add_key_def split: prod.splits sum.splits signal.splits)

subsection \<open>Traces and the host key\<close>

lemma main_try_policy:
  "\<forall>h u p t. EvConnect h u p t \<in> set (p_trace (snd (main_try w host user pw cmd (start r)))) \<longrightarrow>
     precedes (EvSetPolicy AutoAddPolicy) (EvConnect h u p t)
       (p_trace (snd (main_try w host user pw cmd (start r))))"
proof (cases rule: main_try_cases [where w = w and host = host and user = user and pw = pw
      and cmd = cmd and r = r])
  case (transport e)
  show ?thesis unfolding main_try_transport [OF transport] by simp
next
  case (auth e)
  show ?thesis unfolding main_try_auth [OF auth] by simp
next
  case (exec e r')
  show ?thesis unfolding main_try_exec [OF exec] by simp
next
  case (read_stdout ch r' e)
  show ?thesis unfolding main_try_read_stdout [OF read_stdout] by simp
next
  case (decode_stdout ch r' ob)
  show ?thesis unfolding main_try_decode_stdout [OF decode_stdout] by simp
next
  case (read_stderr ch r' ob out e)
  show ?thesis unfolding main_try_read_stderr [OF read_stderr] by simp
next
  case (decode_stderr ch r' ob out eb)
  show ?thesis unfolding main_try_decode_stderr [OF decode_stderr] by simp
next
  case (print ch r' ob out eb err m)
  show ?thesis unfolding main_try_print [OF print] by simp
next
  case (success ch r' ob out eb err)
  show ?thesis unfolding main_try_success [OF success] by simp
qed

lemma bind_new_client: "bind new_client f = (\<lambda>p. f SSHClient (log EvNewClient p))"
  by (rule ext) (simp add: bind_def new_client_def)

lemma bind_set_policy:
  "bind (set_policy pol c) f =
     (\<lambda>p. f (set_missing_host_key_policy pol c) (log (EvSetPolicy pol) p))"
  by (rule ext) (simp add: bind_def set_policy_def)

lemma host_key_check_auto_add:
  "host_key_check w (set_missing_host_key_policy AutoAddPolicy SSHClient) host key = None"
  by (simp add: host_key_check_def set_missing_host_key_policy_def SSHClient_def)

lemma host_key_check_fresh_client:
  "host_key_check w SSHClient host key = Some (SSHException (host_key_error_text w host key))"
  by (simp add: host_key_check_def SSHClient_def)

lemma connect_server_key:
  "connect (w\<lparr>server_key := k\<rparr>) (set_missing_host_key_policy AutoAddPolicy SSHClient) =
   connect w (set_missing_host_key_policy AutoAddPolicy SSHClient)"
  by (intro ext) (simp add: connect_def host_key_check_auto_add Let_def cong: option.case_cong)

lemma exec_command_server_key: "exec_command (w\<lparr>server_key := k\<rparr>) = exec_command w"
  by (intro ext) (simp add: exec_command_def)

lemma decode_server_key: "decode (w\<lparr>server_key := k\<rparr>) = decode w"
  by (intro ext) (simp add: decode_def cong: option.case_cong)

lemma read_text_file_server_key: "read_text_file (w\<lparr>server_key := k\<rparr>) = read_text_file w"
  by (intro ext) (simp add: read_text_file_def)

lemma print_stdout_server_key: "print_stdout (w\<lparr>server_key := k\<rparr>) = print_stdout w"
  by (intro ext) (simp add: print_stdout_def cong: option.case_cong)

lemma main_try_server_key:
  "main_try (w\<lparr>server_key := k\<rparr>) host user pw cmd = main_try w host user pw cmd"
  by (simp add: main_try_def bind_new_client bind_set_policy connect_server_key
      exec_command_server_key decode_server_key print_stdout_server_key)

lemma add_key_body_server_key:
  "add_key_body (w\<lparr>server_key := k\<rparr>) = add_key_body w"
  by (simp add: add_key_body_def bind_new_client bind_set_policy connect_server_key
      exec_command_server_key decode_server_key read_text_file_server_key
      print_stdout_server_key cong: if_cong)

subsection \<open>Exit codes and exceptions of \<open>ssh-helper.py\<close>\<close>

lemma handlers_raise:
  "fst (handlers (Inl (Raise e), p)) = Exit 255"
  "p_stdout (snd (handlers (Inl (Raise e), p))) = p_stdout p"
  "p_trace (snd (handlers (Inl (Raise e), p))) = p_trace p"
  "p_open (snd (handlers (Inl (Raise e), p))) = p_open p"
  "p_remote (snd (handlers (Inl (Raise e), p))) = p_remote p"
  "p_stderr (snd (handlers (Inl (Raise e), p))) = p_stderr p @
     [case e of
        AuthenticationException m \<Rightarrow> lit ''Authentication failed'' @ nl
      | SSHException m \<Rightarrow> lit ''SSH error: '' @ m @ nl
      | OtherException m \<Rightarrow> lit ''Connection error: '' @ m @ nl]"
  by (cases e; simp)+

text \<open>
  C2: the exit code of \<open>ssh-helper.py\<close> is 1 when fewer than five entries are in
  \<open>sys.argv\<close>; otherwise the \<open>try\<close> block ends either in \<open>sys.exit\<close> with the remote
  exit status, which becomes the exit code, or in an exception, and then the exit code is
  255 after one line on stderr: \<open>Authentication failed\<close>, \<open>SSH error: ...\<close> or
  \<open>Connection error: ...\<close> by the kind of the exception.
\<close>

theorem exit_code_classification:
  "(length argv < 5 \<longrightarrow> fst (main argv w r) = Exit 1) \<and>
   (5 \<le> length argv \<longrightarrow>
     (case fst (main_try w (argv ! 1) (argv ! 2) (argv ! 3) (argv ! 4) (start r)) of
        Inl (SysExit n) \<Rightarrow>
          fst (main argv w r) = Exit n
          \<and> (\<exists>ch. fst (exec_outcome w (argv ! 4) r) = Inr ch \<and> ch_exit_status ch = n)
      | Inl (Raise (AuthenticationException m)) \<Rightarrow>
          fst (main argv w r) = Exit 255
          \<and> p_stderr (snd (main argv w r)) = [lit ''Authentication failed'' @ nl]
      | Inl (Raise (SSHException m)) \<Rightarrow>
          fst (main argv w r) = Exit 255
          \<and> p_stderr (snd (main argv w r)) = [lit ''SSH error: '' @ m @ nl]
      | Inl (Raise (OtherException m)) \<Rightarrow>
          fst (main argv w r) = Exit 255
          \<and> p_stderr (snd (main argv w r)) = [lit ''Connection error: '' @ m @ nl]
      | Inr u \<Rightarrow> False))"
proof (intro conjI impI)
  assume "length argv < 5"
  then show "fst (main argv w r) = Exit 1"
    by (simp add: main_def)
next
  assume len: "5 \<le> length argv"
  let ?t = "main_try w (argv ! 1) (argv ! 2) (argv ! 3) (argv ! 4) (start r)"
  have m: "main argv w r = handlers ?t"
    by (rule main_run [OF len])
  show "case fst ?t of
        Inl (SysExit n) \<Rightarrow>
          fst (main argv w r) = Exit n
          \<and> (\<exists>ch. fst (exec_outcome w (argv ! 4) r) = Inr ch \<and> ch_exit_status ch = n)
      | Inl (Raise (AuthenticationException m)) \<Rightarrow>
          fst (main argv w r) = Exit 255
          \<and> p_stderr (snd (main argv w r)) = [lit ''Authentication failed'' @ nl]
      | Inl (Raise (SSHException m)) \<Rightarrow>
          fst (main argv w r) = Exit 255
          \<and> p_stderr (snd (main argv w r)) = [lit ''SSH error: '' @ m @ nl]
      | Inl (Raise (OtherException m)) \<Rightarrow>
          fst (main argv w r) = Exit 255
          \<and> p_stderr (snd (main argv w r)) = [lit ''Connection error: '' @ m @ nl]
      | Inr u \<Rightarrow> False"
  proof (cases rule: main_try_ends [where w = w and host = "argv ! 1" and user = "argv ! 2"
        and pw = "argv ! 3" and cmd = "argv ! 4" and r = r])
    case (raised e p)
    show ?thesis
      unfolding m raised(1) by (cases e) (simp_all add: raised(3))
  next
    case (print ch r' ob out eb err m')
    show ?thesis
      unfolding m main_try_print [OF print] by simp
  next
    case (exited ch r' ob out eb err)
    show ?thesis
      unfolding m main_try_success [OF exited] by (simp add: exited(2))
  qed
qed

lemma auth_failure_try:
  "main_try auth_failure_world (lit ''router'') (lit ''admin'') (lit ''secret'') (lit ''ls'')
     (start ()) =
    (Inl (Raise (AuthenticationException (lit ''Authentication failed.''))),
     \<lparr>p_stdout = [], p_stderr = [],
      p_trace = [EvNewClient, EvSetPolicy AutoAddPolicy,
                 EvConnect (lit ''router'') (lit ''admin'') (lit ''secret'') 15],
      p_open = False, p_remote = ()\<rparr>)"
  by (rule main_try_auth) (simp_all add: auth_failure_world_def fixed_world_simps)

lemma no_session_try:
  "main_try no_session_world (lit ''router'') (lit ''admin'') (lit ''secret'') (lit ''ls'')
     (start ()) =
    (Inl (Raise (SSHException (lit ''SSH session not active''))),
     \<lparr>p_stdout = [], p_stderr = [],
      p_trace = [EvNewClient, EvSetPolicy AutoAddPolicy,
                 EvConnect (lit ''router'') (lit ''admin'') (lit ''secret'') 15,
                 EvExec (lit ''ls'')],
      p_open = True, p_remote = ()\<rparr>)"
  by (rule main_try_exec) (simp_all add: no_session_world_def fixed_world_simps)

lemma unreachable_try:
  "main_try unreachable_world (lit ''router'') (lit ''admin'') (lit ''secret'') (lit ''ls'')
     (start ()) =
    (Inl (Raise (OtherException (lit ''timed out''))),
     \<lparr>p_stdout = [], p_stderr = [],
      p_trace = [EvNewClient, EvSetPolicy AutoAddPolicy,
                 EvConnect (lit ''router'') (lit ''admin'') (lit ''secret'') 15],
      p_open = False, p_remote = ()\<rparr>)"
  by (rule main_try_transport) (simp_all add: unreachable_world_def fixed_world_simps)

theorem exit_code_witness:
  "fst (main [lit ''ssh-helper.py'', lit ''router''] both_streams_world ()) = Exit 1
   \<and> fst (main demo_argv both_streams_world ()) = Exit 7
   \<and> fst (main demo_argv auth_failure_world ()) = Exit 255
   \<and> p_stderr (snd (main demo_argv auth_failure_world ())) = [lit ''Authentication failed'' @ nl]
   \<and> fst (main demo_argv no_session_world ()) = Exit 255
   \<and> p_stderr (snd (main demo_argv no_session_world ())) =
       [lit ''SSH error: '' @ lit ''SSH session not active'' @ nl]
   \<and> fst (main demo_argv unreachable_world ()) = Exit 255
   \<and> p_stderr (snd (main demo_argv unreachable_world ())) =
       [lit ''Connection error: '' @ lit ''timed out'' @ nl]"
proof -
  have len: "5 \<le> length demo_argv"
    by (simp add: demo_args)
  have "fst (main [lit ''ssh-helper.py'', lit ''router''] both_streams_world ()) = Exit 1"
    using exit_code_classification [of "[lit ''ssh-helper.py'', lit ''router'']"
        both_streams_world "()"]
    by simp
  moreover have "fst (main demo_argv both_streams_world ()) = Exit 7"
    using exit_code_classification [of demo_argv both_streams_world "()", THEN conjunct2,
        rule_format, OF len]
    unfolding demo_try both_streams_try by simp
  moreover have "fst (main demo_argv auth_failure_world ()) = Exit 255
    \<and> p_stderr (snd (main demo_argv auth_failure_world ())) = [lit ''Authentication failed'' @ nl]"
    using exit_code_classification [of demo_argv auth_failure_world "()", THEN conjunct2,
        rule_format, OF len]
    unfolding demo_try auth_failure_try by simp
  moreover have "fst (main demo_argv no_session_world ()) = Exit 255
    \<and> p_stderr (snd (main demo_argv no_session_world ())) =
       [lit ''SSH error: '' @ lit ''SSH session not active'' @ nl]"
    using exit_code_classification [of demo_argv no_session_world "()", THEN conjunct2,
        rule_format, OF len]
    unfolding demo_try no_session_try by simp
  moreover have "fst (main demo_argv unreachable_world ()) = Exit 255
    \<and> p_stderr (snd (main demo_argv unreachable_world ())) =
       [lit ''Connection error: '' @ lit ''timed out'' @ nl]"
    using exit_code_classification [of demo_argv unreachable_world "()", THEN conjunct2,
        rule_format, OF len]
    unfolding demo_try unreachable_try by simp
  ultimately show ?thesis by simp
qed

text \<open>
  C9: \<open>main\<close> always ends with an exit code, never with an uncaught exception; every
  exception the \<open>try\<close> block raises gives exit code 255, nothing on stdout and one line
  on stderr; in particular, when the command ran but its output is not UTF-8, the line
  is \<open>Connection error: ...\<close> with the text of the \<open>UnicodeDecodeError\<close>.
\<close>

theorem every_exception_is_reported:
  "(\<exists>n. fst (main argv w r) = Exit n)
   \<and> (\<forall>e. 5 \<le> length argv
         \<and> fst (main_try w (argv ! 1) (argv ! 2) (argv ! 3) (argv ! 4) (start r)) = Inl (Raise e)
        \<longrightarrow> fst (main argv w r) = Exit 255
          \<and> p_stdout (snd (main argv w r)) = []
          \<and> p_stderr (snd (main argv w r)) =
              [case e of
                 AuthenticationException m \<Rightarrow> lit ''Authentication failed'' @ nl
               | SSHException m \<Rightarrow> lit ''SSH error: '' @ m @ nl
               | OtherException m \<Rightarrow> lit ''Connection error: '' @ m @ nl])
   \<and> (\<forall>ch r' ob. 5 \<le> length argv \<and> connect_ok w (argv ! 1) (argv ! 2) (argv ! 3)
         \<and> exec_outcome w (argv ! 4) r = (Inr ch, r') \<and> ch_stdout ch = Inr ob
         \<and> utf8_decode ob = None
        \<longrightarrow> fst (main argv w r) = Exit 255
          \<and> p_stdout (snd (main argv w r)) = []
          \<and> p_stderr (snd (main argv w r)) =
              [lit ''Connection error: '' @ decode_error_text w ob @ nl])"
proof (intro conjI allI impI)
  show "\<exists>n. fst (main argv w r) = Exit n"
  proof (cases "length argv < 5")
    case True
    then show ?thesis by (simp add: main_def)
  next
    case False
    then have len: "5 \<le> length argv" by simp
    show ?thesis
    proof (cases rule: main_try_ends [where w = w and host = "argv ! 1"
          and user = "argv ! 2" and pw = "argv ! 3" and cmd = "argv ! 4" and r = r])
      case (raised e p)
      then show ?thesis
        unfolding main_run [OF len] by (simp add: handlers_raise)
    next
      case (print ch r' ob out eb err m)
      show ?thesis
        unfolding main_run [OF len] main_try_print [OF print] by simp
    next
      case (exited ch r' ob out eb err)
      show ?thesis
        unfolding main_run [OF len] main_try_success [OF exited] by simp
    qed
  qed
next
  fix e
  assume a: "5 \<le> length argv
    \<and> fst (main_try w (argv ! 1) (argv ! 2) (argv ! 3) (argv ! 4) (start r)) = Inl (Raise e)"
  then have len: "5 \<le> length argv" by simp
  have "fst (main argv w r) = Exit 255
          \<and> p_stdout (snd (main argv w r)) = []
          \<and> p_stderr (snd (main argv w r)) =
              [case e of
                 AuthenticationException m \<Rightarrow> lit ''Authentication failed'' @ nl
               | SSHException m \<Rightarrow> lit ''SSH error: '' @ m @ nl
               | OtherException m \<Rightarrow> lit ''Connection error: '' @ m @ nl]"
  proof (cases rule: main_try_ends [where w = w and host = "argv ! 1"
        and user = "argv ! 2" and pw = "argv ! 3" and cmd = "argv ! 4" and r = r])
    case (raised e' p)
    from a [unfolded raised(1)] have "e' = e" by simp
    with raised show ?thesis
      unfolding main_run [OF len] by (simp add: handlers_raise)
  next
    case (print ch r' ob out eb err m)
    from a [unfolded main_try_print [OF print]] have "e = OtherException m" by simp
    then show ?thesis
      unfolding main_run [OF len] main_try_print [OF print] by simp
  next
    case (exited ch r' ob out eb err)
    from a [unfolded main_try_success [OF exited]] show ?thesis
      by simp
  qed
  then show "fst (main argv w r) = Exit 255"
    and "p_stdout (snd (main argv w r)) = []"
    and "p_stderr (snd (main argv w r)) =
              [case e of
                 AuthenticationException m \<Rightarrow> lit ''Authentication failed'' @ nl
               | SSHException m \<Rightarrow> lit ''SSH error: '' @ m @ nl
               | OtherException m \<Rightarrow> lit ''Connection error: '' @ m @ nl]"
    by simp_all
next
  fix ch r' ob
  assume a: "5 \<le> length argv \<and> connect_ok w (argv ! 1) (argv ! 2) (argv ! 3)
         \<and> exec_outcome w (argv ! 4) r = (Inr ch, r') \<and> ch_stdout ch = Inr ob
         \<and> utf8_decode ob = None"
  then have len: "5 \<le> length argv" by simp
  from a have c: "connect_ok w (argv ! 1) (argv ! 2) (argv ! 3)"
    and x: "exec_outcome w (argv ! 4) r = (Inr ch, r')"
    and so: "ch_stdout ch = Inr ob" and d: "utf8_decode ob = None"
    by simp_all
  have t: "main_try w (argv ! 1) (argv ! 2) (argv ! 3) (argv ! 4) (start r) =
    (Inl (Raise (OtherException (decode_error_text w ob))), \<lparr>p_stdout = [], p_stderr = [],
      p_trace = [EvNewClient, EvSetPolicy AutoAddPolicy,
                 EvConnect (argv ! 1) (argv ! 2) (argv ! 3) 15, EvExec (argv ! 4), EvReadStdout],
      p_open = True, p_remote = r'\<rparr>)"
    by (rule main_try_decode_stdout [OF c x so d])
  show "fst (main argv w r) = Exit 255"
    and "p_stdout (snd (main argv w r)) = []"
    and "p_stderr (snd (main argv w r)) =
              [lit ''Connection error: '' @ decode_error_text w ob @ nl]"
    unfolding main_run [OF len] t by simp_all
qed

theorem every_exception_witness:
  "fst (main demo_argv undecodable_world ()) = Exit 255
   \<and> p_stdout (snd (main demo_argv undecodable_world ())) = []
   \<and> p_stderr (snd (main demo_argv undecodable_world ())) =
       [lit ''Connection error: '' @ lit ''invalid start byte'' @ nl]
   \<and> fst (main demo_argv auth_failure_world ()) = Exit 255
   \<and> p_stdout (snd (main demo_argv auth_failure_world ())) = []
   \<and> p_stderr (snd (main demo_argv auth_failure_world ())) = [lit ''Authentication failed'' @ nl]"
proof -
  have a: "5 \<le> length demo_argv
    \<and> connect_ok undecodable_world (demo_argv ! 1) (demo_argv ! 2) (demo_argv ! 3)
    \<and> exec_outcome undecodable_world (demo_argv ! 4) () = (Inr (ok_channel [0xFF] [] 0), ())
    \<and> ch_stdout (ok_channel [0xFF] [] 0) = Inr [0xFF]
    \<and> utf8_decode [0xFF] = None"
    by (simp add: demo_args undecodable_world_def fixed_world_simps ok_channel_simps)
  have b: "5 \<le> length demo_argv
    \<and> fst (main_try auth_failure_world (demo_argv ! 1) (demo_argv ! 2) (demo_argv ! 3)
         (demo_argv ! 4) (start ())) =
       Inl (Raise (AuthenticationException (lit ''Authentication failed.'')))"
    unfolding demo_try auth_failure_try by (simp add: demo_args)
  have "decode_error_text undecodable_world [0xFF] = lit ''invalid start byte''"
    by (simp add: undecodable_world_def fixed_world_simps)
  with every_exception_is_reported [of demo_argv undecodable_world "()", THEN conjunct2,
      THEN conjunct2, rule_format, OF a]
    every_exception_is_reported [of demo_argv auth_failure_world "()", THEN conjunct2,
      THEN conjunct1, rule_format, OF b]
  show ?thesis by simp
qed

subsection \<open>The key-append script on the example router\<close>

lemma strip_demo_key: "strip (demo_key @ nl) = demo_key"
  by (simp add: strip_def demo_key_def nl_def lit_def py_isspace_def)

lemma strip_nl: "strip [10] = []"
  by (simp add: strip_def py_isspace_def)

lemma decode_nl: "utf8_decode [10] = Some [10]"
  by simp

lemma demo_key_nonempty: "demo_key \<noteq> []"
  by (simp add: demo_key_def lit_def)

lemma jffs_not_nvram: "jffs_cmd k \<noteq> nvram_get_cmd"
  by (simp add: jffs_cmd_def nvram_get_cmd_def lit_def)

lemma dropbear_not_nvram: "dropbear_cmd k \<noteq> nvram_get_cmd"
  by (simp add: dropbear_cmd_def nvram_get_cmd_def lit_def)

lemma dropbear_not_jffs: "dropbear_cmd k \<noteq> jffs_cmd k"
  by (simp add: dropbear_cmd_def jffs_cmd_def lit_def)

lemma router_world_simps:
  "local_file (router_world k) key_path = Inr (k @ nl)"
  "connect_ok (router_world k) h u p"
  "exec_outcome (router_world k) nvram_get_cmd s =
     (Inr (ok_channel (nvram_sshd_authkeys s @ [10]) [] 0), s)"
  "exec_outcome (router_world k) (jffs_cmd k) s =
     (case sh_and (sh_or (append_jffs k) mkdir_jffs) (append_jffs k) s of
        (st, s') \<Rightarrow> (Inr (ok_channel [] [] st), s'))"
  "exec_outcome (router_world k) (dropbear_cmd k) s =
     (case append_dropbear k s of (st, s') \<Rightarrow> (Inr (ok_channel [] [] st), s'))"
  "encode_error_text (router_world k) t = None"
  by (simp_all add: router_world_def router_exec_def connect_ok_def jffs_not_nvram
      dropbear_not_nvram dropbear_not_jffs)

lemma router_first_run:
  "add_key (router_world demo_key) fresh_router =
    (Exit 0,
     \<lparr>p_stdout = [added_msg @ nl], p_stderr = [],
      p_trace = [EvNewClient, EvSetPolicy AutoAddPolicy,
        EvConnect router_host router_user router_password 10,
        EvExec nvram_get_cmd, EvReadStdout, EvExec (jffs_cmd demo_key), EvReadStdout,
        EvReadStderr, EvExec (dropbear_cmd demo_key), EvReadStdout, EvClose],
      p_open = False,
      p_remote = \<lparr>nvram_sshd_authkeys = [], jffs_ssh_dir = True,
        jffs_authorized_keys = [demo_key], dropbear_dir = True,
        dropbear_authorized_keys = [demo_key]\<rparr>\<rparr>)"
proof -
  let ?w = "router_world demo_key"
  let ?r2 = "fresh_router\<lparr>jffs_ssh_dir := True, jffs_authorized_keys := [demo_key]\<rparr>"
  let ?r3 = "?r2\<lparr>dropbear_authorized_keys := [demo_key]\<rparr>"
  have f: "local_file ?w key_path = Inr (demo_key @ nl)"
    and c: "connect_ok ?w router_host router_user router_password"
    and n: "exec_outcome ?w nvram_get_cmd fresh_router = (Inr (ok_channel [10] [] 0), fresh_router)"
    by (simp_all add: router_world_simps fresh_router_def)
  have d: "ch_stdout (ok_channel [10] [] 0) = Inr [10]"
    by (simp add: ok_channel_simps)
  have nin: "\<not> py_in (strip (demo_key @ nl)) (strip [10])"
    by (simp add: strip_demo_key strip_nl demo_key_nonempty)
  have j: "exec_outcome ?w (jffs_cmd (strip (demo_key @ nl))) fresh_router =
      (Inr (ok_channel [] [] 0), ?r2)"
    by (simp add: strip_demo_key router_world_simps sh_and_def sh_or_def append_jffs_def
        mkdir_jffs_def fresh_router_def)
  have jo: "ch_stdout (ok_channel [] [] 0) = Inr []" and je: "ch_stderr (ok_channel [] [] 0) = Inr []"
    by (simp_all add: ok_channel_simps)
  have b: "exec_outcome ?w (dropbear_cmd (strip (demo_key @ nl))) ?r2 =
      (Inr (ok_channel [] [] 0), ?r3)"
    by (simp add: strip_demo_key router_world_simps append_dropbear_def fresh_router_def)
  have en: "encode_error_text ?w (added_msg @ nl) = None"
    by (simp add: router_world_simps)
  from add_key_run(1) [OF add_key_added [OF f c n d decode_nl nin j jo je b jo en]]
  show ?thesis
    by (simp add: strip_demo_key fresh_router_def)
qed

lemma router_second_run:
  "add_key (router_world demo_key)
     \<lparr>nvram_sshd_authkeys = [], jffs_ssh_dir = True, jffs_authorized_keys = [demo_key],
      dropbear_dir = True, dropbear_authorized_keys = [demo_key]\<rparr> =
    (Exit 0,
     \<lparr>p_stdout = [added_msg @ nl], p_stderr = [],
      p_trace = [EvNewClient, EvSetPolicy AutoAddPolicy,
        EvConnect router_host router_user router_password 10,
        EvExec nvram_get_cmd, EvReadStdout, EvExec (jffs_cmd demo_key), EvReadStdout,
        EvReadStderr, EvExec (dropbear_cmd demo_key), EvReadStdout, EvClose],
      p_open = False,
      p_remote = \<lparr>nvram_sshd_authkeys = [], jffs_ssh_dir = True,
        jffs_authorized_keys = [demo_key, demo_key, demo_key], dropbear_dir = True,
        dropbear_authorized_keys = [demo_key, demo_key]\<rparr>\<rparr>)"
proof -
  let ?w = "router_world demo_key"
  let ?r1 = "\<lparr>nvram_sshd_authkeys = [], jffs_ssh_dir = True, jffs_authorized_keys = [demo_key],
      dropbear_dir = True, dropbear_authorized_keys = [demo_key]\<rparr>"
  let ?r2 = "?r1\<lparr>jffs_authorized_keys := [demo_key, demo_key, demo_key]\<rparr>"
  let ?r3 = "?r2\<lparr>dropbear_authorized_keys := [demo_key, demo_key]\<rparr>"
  have f: "local_file ?w key_path = Inr (demo_key @ nl)"
    and c: "connect_ok ?w router_host router_user router_password"
    and n: "exec_outcome ?w nvram_get_cmd ?r1 = (Inr (ok_channel [10] [] 0), ?r1)"
    by (simp_all add: router_world_simps)
  have d: "ch_stdout (ok_channel [10] [] 0) = Inr [10]"
    by (simp add: ok_channel_simps)
  have nin: "\<not> py_in (strip (demo_key @ nl)) (strip [10])"
    by (simp add: strip_demo_key strip_nl demo_key_nonempty)
  have j: "exec_outcome ?w (jffs_cmd (strip (demo_key @ nl))) ?r1 =
      (Inr (ok_channel [] [] 0), ?r2)"
    by (simp add: strip_demo_key router_world_simps sh_and_def sh_or_def append_jffs_def
        mkdir_jffs_def)
  have jo: "ch_stdout (ok_channel [] [] 0) = Inr []" and je: "ch_stderr (ok_channel [] [] 0) = Inr []"
    by (simp_all add: ok_channel_simps)
  have b: "exec_outcome ?w (dropbear_cmd (strip (demo_key @ nl))) ?r2 =
      (Inr (ok_channel [] [] 0), ?r3)"
    by (simp add: strip_demo_key router_world_simps append_dropbear_def)
  have en: "encode_error_text ?w (added_msg @ nl) = None"
    by (simp add: router_world_simps)
  from add_key_run(1) [OF add_key_added [OF f c n d decode_nl nin j jo je b jo en]]
  show ?thesis
    by (simp add: strip_demo_key)
qed

text \<open>
  C3 fails on the code: the guard reads the NVRAM variable \<open>sshd_authkeys\<close>, the
  appends go to the two files, and no command writes the variable. On a router without
  the key, the first run leaves one line in each file; the second run finds the variable
  still empty, reports \<open>Key added ...\<close> again and leaves three lines in
  \<open>/jffs/.ssh/authorized_keys\<close> and two in \<open>/etc/dropbear/authorized_keys\<close>.
\<close>

theorem second_invocation_appends_again:
  "p_remote (snd (add_key (router_world demo_key) fresh_router)) =
     \<lparr>nvram_sshd_authkeys = [], jffs_ssh_dir = True, jffs_authorized_keys = [demo_key],
      dropbear_dir = True, dropbear_authorized_keys = [demo_key]\<rparr>
   \<and> p_stdout (snd (add_key (router_world demo_key)
        \<lparr>nvram_sshd_authkeys = [], jffs_ssh_dir = True, jffs_authorized_keys = [demo_key],
         dropbear_dir = True, dropbear_authorized_keys = [demo_key]\<rparr>)) = [added_msg @ nl]
   \<and> p_remote (snd (add_key (router_world demo_key)
        \<lparr>nvram_sshd_authkeys = [], jffs_ssh_dir = True, jffs_authorized_keys = [demo_key],
         dropbear_dir = True, dropbear_authorized_keys = [demo_key]\<rparr>)) =
     \<lparr>nvram_sshd_authkeys = [], jffs_ssh_dir = True,
      jffs_authorized_keys = [demo_key, demo_key, demo_key], dropbear_dir = True,
      dropbear_authorized_keys = [demo_key, demo_key]\<rparr>"
  by (simp add: router_first_run router_second_run)

lemma add_key_no_exit_status: "EvExitStatus \<notin> set (p_trace (snd (add_key w r)))"
proof (cases rule: add_key_ends [where w = w and r = r])
  case (raised e p)
  then show ?thesis by (simp add: add_key_trace)
next
  case (already raw ch r1 bs s)
  show ?thesis unfolding add_key_trace add_key_already [OF already] by simp
next
  case (added raw ch r1 bs s ch1 r2 o1 e1 ch2 r3 o2)
  show ?thesis unfolding add_key_trace add_key_added [OF added] by simp
qed

lemma key_world_simps:
  "local_file (key_world f) path = Inr (demo_key @ nl)"
  "connect_ok (key_world f) h u p"
  "exec_outcome (key_world f) cmd r = (Inr (f cmd), r)"
  "decode_error_text (key_world f) bs = lit ''invalid start byte''"
  "encode_error_text (key_world f) t = None"
  by (simp_all add: key_world_def connect_ok_def)

lemma readonly_answer_simps:
  "readonly_answer nvram_get_cmd = ok_channel [10] [] 0"
  "readonly_answer (jffs_cmd k) = ok_channel [] [] 1"
  "readonly_answer (dropbear_cmd k) = ok_channel [] [] 1"
  by (simp_all add: readonly_answer_def jffs_not_nvram dropbear_not_nvram)

text \<open>
  C10: the two commands of the append branch are, for the key \<open>k\<close> and with \<open>Q\<close> for the
  double quote, \<open>echo QkQ >> /jffs/.ssh/authorized_keys 2>/dev/null || mkdir -p /jffs/.ssh &&
  echo QkQ >> /jffs/.ssh/authorized_keys\<close> and
  \<open>echo QkQ >> /etc/dropbear/authorized_keys 2>/dev/null\<close>: two different commands, for two
  different files. No run of \<open>add_key_nvram.py\<close> reads an exit status. When the stripped
  contents of the key file are not in the NVRAM value, the calls of the append branch
  return and stdout takes the line, the two commands are sent with the stripped contents
  of the key file as \<open>k\<close>, in this order, and the line
  \<open>Key added to /jffs/.ssh/authorized_keys and /etc/dropbear/\<close> is printed before the exit
  with code 0, whatever exit status the channels \<open>ch1\<close> and \<open>ch2\<close> carry.
\<close>

theorem success_reported_without_checking:
  "jffs_cmd k =
       lit ''echo '' @ [34] @ k @ [34]
         @ lit '' >> /jffs/.ssh/authorized_keys 2>/dev/null || mkdir -p /jffs/.ssh && echo ''
         @ [34] @ k @ [34] @ lit '' >> /jffs/.ssh/authorized_keys''
   \<and> dropbear_cmd k =
       lit ''echo '' @ [34] @ k @ [34] @ lit '' >> /etc/dropbear/authorized_keys 2>/dev/null''
   \<and> jffs_cmd k \<noteq> dropbear_cmd k
   \<and> added_msg = lit ''Key added to /jffs/.ssh/authorized_keys and /etc/dropbear/''
   \<and> EvExitStatus \<notin> set (p_trace (snd (add_key w r)))
   \<and> (\<forall>raw ch r1 bs s ch1 r2 o1 e1 ch2 r3 o2.
        local_file w key_path = Inr raw
        \<and> connect_ok w router_host router_user router_password
        \<and> exec_outcome w nvram_get_cmd r = (Inr ch, r1)
        \<and> ch_stdout ch = Inr bs \<and> utf8_decode bs = Some s
        \<and> \<not> py_in (strip raw) (strip s)
        \<and> exec_outcome w (jffs_cmd (strip raw)) r1 = (Inr ch1, r2)
        \<and> ch_stdout ch1 = Inr o1 \<and> ch_stderr ch1 = Inr e1
        \<and> exec_outcome w (dropbear_cmd (strip raw)) r2 = (Inr ch2, r3)
        \<and> ch_stdout ch2 = Inr o2
        \<and> encode_error_text w (added_msg @ nl) = None
       \<longrightarrow> add_key w r =
          (Exit 0,
           \<lparr>p_stdout = [added_msg @ nl], p_stderr = [],
            p_trace = [EvNewClient, EvSetPolicy AutoAddPolicy,
              EvConnect router_host router_user router_password 10,
              EvExec nvram_get_cmd, EvReadStdout,
              EvExec (jffs_cmd (strip raw)), EvReadStdout, EvReadStderr,
              EvExec (dropbear_cmd (strip raw)), EvReadStdout, EvClose],
            p_open = False, p_remote = r3\<rparr>))"
proof (intro conjI allI impI)
  show "jffs_cmd k =
       lit ''echo '' @ [34] @ k @ [34]
         @ lit '' >> /jffs/.ssh/authorized_keys 2>/dev/null || mkdir -p /jffs/.ssh && echo ''
         @ [34] @ k @ [34] @ lit '' >> /jffs/.ssh/authorized_keys''"
    by (simp add: jffs_cmd_def)
  show "dropbear_cmd k =
       lit ''echo '' @ [34] @ k @ [34] @ lit '' >> /etc/dropbear/authorized_keys 2>/dev/null''"
    by (simp add: dropbear_cmd_def)
  show "jffs_cmd k \<noteq> dropbear_cmd k"
    using dropbear_not_jffs [of k] by simp
  show "added_msg = lit ''Key added to /jffs/.ssh/authorized_keys and /etc/dropbear/''"
    by (simp add: added_msg_def)
  show "EvExitStatus \<notin> set (p_trace (snd (add_key w r)))"
    by (rule add_key_no_exit_status)
next
  fix raw ch r1 bs s ch1 r2 o1 e1 ch2 r3 o2
  assume a: "local_file w key_path = Inr raw
        \<and> connect_ok w router_host router_user router_password
        \<and> exec_outcome w nvram_get_cmd r = (Inr ch, r1)
        \<and> ch_stdout ch = Inr bs \<and> utf8_decode bs = Some s
        \<and> \<not> py_in (strip raw) (strip s)
        \<and> exec_outcome w (jffs_cmd (strip raw)) r1 = (Inr ch1, r2)
        \<and> ch_stdout ch1 = Inr o1 \<and> ch_stderr ch1 = Inr e1
        \<and> exec_outcome w (dropbear_cmd (strip raw)) r2 = (Inr ch2, r3)
        \<and> ch_stdout ch2 = Inr o2
        \<and> encode_error_text w (added_msg @ nl) = None"
  then have "add_key_body w (start r) =
    (Inr (),
     \<lparr>p_stdout = [added_msg @ nl], p_stderr = [],
      p_trace = [EvNewClient, EvSetPolicy AutoAddPolicy,
        EvConnect router_host router_user router_password 10,
        EvExec nvram_get_cmd, EvReadStdout, EvExec (jffs_cmd (strip raw)), EvReadStdout,
        EvReadStderr, EvExec (dropbear_cmd (strip raw)), EvReadStdout, EvClose],
      p_open = False, p_remote = r3\<rparr>)"
    by (intro add_key_added) blast+
  then show "add_key w r =
          (Exit 0,
           \<lparr>p_stdout = [added_msg @ nl], p_stderr = [],
            p_trace = [EvNewClient, EvSetPolicy AutoAddPolicy,
              EvConnect router_host router_user router_password 10,
              EvExec nvram_get_cmd, EvReadStdout,
              EvExec (jffs_cmd (strip raw)), EvReadStdout, EvReadStderr,
              EvExec (dropbear_cmd (strip raw)), EvReadStdout, EvClose],
            p_open = False, p_remote = r3\<rparr>)"
    by (rule add_key_run(1))
qed

theorem success_reported_witness:
  "ch_exit_status (readonly_answer (jffs_cmd demo_key)) = 1
   \<and> ch_exit_status (readonly_answer (dropbear_cmd demo_key)) = 1
   \<and> add_key readonly_world () =
      (Exit 0,
       \<lparr>p_stdout = [lit ''Key added to /jffs/.ssh/authorized_keys and /etc/dropbear/'' @ nl],
        p_stderr = [],
        p_trace = [EvNewClient, EvSetPolicy AutoAddPolicy,
          EvConnect router_host router_user router_password 10,
          EvExec nvram_get_cmd, EvReadStdout,
          EvExec (jffs_cmd demo_key), EvReadStdout, EvReadStderr,
          EvExec (dropbear_cmd demo_key), EvReadStdout, EvClose],
        p_open = False, p_remote = ()\<rparr>)"
proof -
  have a: "local_file readonly_world key_path = Inr (demo_key @ nl)
        \<and> connect_ok readonly_world router_host router_user router_password
        \<and> exec_outcome readonly_world nvram_get_cmd () = (Inr (ok_channel [10] [] 0), ())
        \<and> ch_stdout (ok_channel [10] [] 0) = Inr [10] \<and> utf8_decode [10] = Some [10]
        \<and> \<not> py_in (strip (demo_key @ nl)) (strip [10])
        \<and> exec_outcome readonly_world (jffs_cmd (strip (demo_key @ nl))) () =
            (Inr (ok_channel [] [] 1), ())
        \<and> ch_stdout (ok_channel [] [] 1) = Inr [] \<and> ch_stderr (ok_channel [] [] 1) = Inr []
        \<and> exec_outcome readonly_world (dropbear_cmd (strip (demo_key @ nl))) () =
            (Inr (ok_channel [] [] 1), ())
        \<and> ch_stdout (ok_channel [] [] 1) = Inr []
        \<and> encode_error_text readonly_world (added_msg @ nl) = None"
    by (simp add: readonly_world_def key_world_simps readonly_answer_simps ok_channel_simps
        strip_demo_key strip_nl demo_key_nonempty)
  have m: "added_msg = lit ''Key added to /jffs/.ssh/authorized_keys and /etc/dropbear/''"
    by (simp add: added_msg_def)
  from success_reported_without_checking [where w = readonly_world and r = "()"
      and k = demo_key, THEN conjunct2, THEN conjunct2, THEN conjunct2, THEN conjunct2,
      THEN conjunct2, rule_format, OF a]
  show ?thesis
    unfolding m [symmetric] by (simp add: strip_demo_key readonly_answer_simps ok_channel_simps)
qed

subsection \<open>Closing the session and the order of calls\<close>

lemma reaches_exit_iff:
  "reaches_exit argv w r \<longleftrightarrow>
     5 \<le> length argv
     \<and> (\<exists>n p. main_try w (argv ! 1) (argv ! 2) (argv ! 3) (argv ! 4) (start r) = (Inl (SysExit n), p))"
  unfolding reaches_exit_def
  by (cases "main_try w (argv ! 1) (argv ! 2) (argv ! 3) (argv ! 4) (start r)")
    (auto split: sum.splits signal.splits)

lemma main_state:
  assumes "5 \<le> length argv"
  shows "p_open (snd (main argv w r)) =
      p_open (snd (main_try w (argv ! 1) (argv ! 2) (argv ! 3) (argv ! 4) (start r)))"
proof -
  obtain s p where sp: "main_try w (argv ! 1) (argv ! 2) (argv ! 3) (argv ! 4) (start r) = (s, p)"
    by (cases "main_try w (argv ! 1) (argv ! 2) (argv ! 3) (argv ! 4) (start r)")
  have "p_open (snd (handlers (s, p))) = p_open p"
    by (cases "(s, p)" rule: handlers.cases) simp_all
  then show ?thesis
    unfolding main_run [OF assms] sp by simp
qed

lemma main_try_close:
  fixes w :: "'r world"
  defines "t \<equiv> \<lambda>argv (r::'r). main_try w (argv ! 1) (argv ! 2) (argv ! 3) (argv ! 4) (start r)"
  assumes len: "5 \<le> length argv"
  shows "(EvClose \<in> set (p_trace (snd (t argv r))) \<longleftrightarrow> calls_return w (argv ! 1) (argv ! 2) (argv ! 3) (argv ! 4) r)
       \<and> (EvExitStatus \<in> set (p_trace (snd (t argv r))) \<longleftrightarrow> calls_return w (argv ! 1) (argv ! 2) (argv ! 3) (argv ! 4) r)
       \<and> (p_open (snd (t argv r)) \<longleftrightarrow>
            connect_ok w (argv ! 1) (argv ! 2) (argv ! 3) \<and> \<not> calls_return w (argv ! 1) (argv ! 2) (argv ! 3) (argv ! 4) r)
       \<and> (reaches_exit argv w r \<longrightarrow> calls_return w (argv ! 1) (argv ! 2) (argv ! 3) (argv ! 4) r)
       \<and> (calls_return w (argv ! 1) (argv ! 2) (argv ! 3) (argv ! 4) r \<longrightarrow>
            precedes EvReadStdout EvExitStatus (p_trace (snd (t argv r)))
            \<and> precedes EvReadStderr EvExitStatus (p_trace (snd (t argv r))))"
proof (cases rule: main_try_ends [where w = w and host = "argv ! 1" and user = "argv ! 2"
      and pw = "argv ! 3" and cmd = "argv ! 4" and r = r])
  case (raised e p)
  then have "\<not> reaches_exit argv w r"
    unfolding reaches_exit_iff by simp
  with raised show ?thesis
    unfolding t_def by simp
next
  case (print ch r' ob out eb err m)
  have c: "calls_return w (argv ! 1) (argv ! 2) (argv ! 3) (argv ! 4) r"
    unfolding calls_return_iff using print by blast
  have "\<not> reaches_exit argv w r"
    unfolding reaches_exit_iff main_try_print [OF print] by simp
  with c show ?thesis
    unfolding t_def main_try_print [OF print] by simp
next
  case (exited ch r' ob out eb err)
  have c: "calls_return w (argv ! 1) (argv ! 2) (argv ! 3) (argv ! 4) r"
    unfolding calls_return_iff using exited by blast
  then show ?thesis
    unfolding t_def main_try_success [OF exited] by simp
qed

text \<open>
  C5: a run of \<open>ssh-helper.py\<close> that gets to \<open>sys.exit(exit_code)\<close> has read the exit
  status, and in every run that reads the exit status both \<open>stdout.read()\<close> and
  \<open>stderr.read()\<close> come before it in the order of the calls.
\<close>

theorem streams_drained_before_exit_status:
  "(reaches_exit argv w r \<longrightarrow> EvExitStatus \<in> set (p_trace (snd (main argv w r))))
   \<and> (EvExitStatus \<in> set (p_trace (snd (main argv w r))) \<longrightarrow>
        precedes EvReadStdout EvExitStatus (p_trace (snd (main argv w r)))
        \<and> precedes EvReadStderr EvExitStatus (p_trace (snd (main argv w r))))"
proof (cases "length argv < 5")
  case True
  then show ?thesis
    by (simp add: main_trace reaches_exit_def)
next
  case False
  then have len: "5 \<le> length argv" by simp
  from main_try_close [OF len, of w r] False show ?thesis
    unfolding main_trace by simp
qed

lemma both_streams_reaches_exit: "reaches_exit demo_argv both_streams_world ()"
  unfolding reaches_exit_iff demo_try both_streams_try by (simp add: demo_args)

theorem streams_drained_witness:
  "reaches_exit demo_argv both_streams_world ()
   \<and> p_trace (snd (main demo_argv both_streams_world ())) =
       [EvNewClient, EvSetPolicy AutoAddPolicy,
        EvConnect (lit ''router'') (lit ''admin'') (lit ''secret'') 15,
        EvExec (lit ''ls''), EvReadStdout, EvReadStderr, EvExitStatus, EvClose]
   \<and> precedes EvReadStdout EvExitStatus (p_trace (snd (main demo_argv both_streams_world ())))
   \<and> precedes EvReadStderr EvExitStatus (p_trace (snd (main demo_argv both_streams_world ())))"
  using streams_drained_before_exit_status [of demo_argv both_streams_world "()"]
    both_streams_reaches_exit
  by (simp add: both_streams_run)

lemma add_key_close:
  "(\<forall>n. fst (add_key w r) = Exit n \<longrightarrow>
      \<not> p_open (snd (add_key w r)) \<and> EvClose \<in> set (p_trace (snd (add_key w r))))
   \<and> (\<forall>e. fst (add_key w r) = Uncaught e \<longrightarrow>
      EvClose \<notin> set (p_trace (snd (add_key w r)))
      \<and> (p_open (snd (add_key w r)) \<longleftrightarrow>
           (\<exists>raw. local_file w key_path = Inr raw)
           \<and> connect_ok w router_host router_user router_password))"
proof (cases rule: add_key_ends [where w = w and r = r])
  case (raised e p)
  then show ?thesis
    by (simp add: add_key_run(2) [OF raised(1)])
next
  case (already raw ch r1 bs s)
  show ?thesis
    by (simp add: add_key_run(1) [OF add_key_already [OF already]])
next
  case (added raw ch r1 bs s ch1 r2 o1 e1 ch2 r3 o2)
  show ?thesis
    by (simp add: add_key_run(1) [OF add_key_added [OF added]])
qed

text \<open>
  C4, as amended: the session is closed exactly when every call before \<open>close\<close> returns.
  In \<open>ssh-helper.py\<close>, run with at least four arguments, \<open>close\<close> is called exactly when
  \<open>connect\<close>, \<open>exec_command\<close> and the reading and decoding of both streams return; it is
  called before anything is printed. When one of these calls raises, \<open>close\<close> is never
  called, and the session is open at exit exactly when the connection had been set up.
  With fewer arguments there is no session. A run that gets to \<open>sys.exit(exit_code)\<close>
  has closed the session. In \<open>add_key_nvram.py\<close>, where \<open>close\<close> is the last statement, a run
  that ends with an exit code has closed the session; a run that ends in an exception
  has not, and it leaves the session open exactly when the key file was read and the
  connection set up.
\<close>

theorem session_closed_iff_calls_return:
  "(5 \<le> length argv \<longrightarrow>
      (EvClose \<in> set (p_trace (snd (main argv w r))) \<longleftrightarrow>
         calls_return w (argv ! 1) (argv ! 2) (argv ! 3) (argv ! 4) r)
      \<and> (p_open (snd (main argv w r)) \<longleftrightarrow>
           connect_ok w (argv ! 1) (argv ! 2) (argv ! 3)
           \<and> \<not> calls_return w (argv ! 1) (argv ! 2) (argv ! 3) (argv ! 4) r))
   \<and> (length argv < 5 \<longrightarrow>
      EvClose \<notin> set (p_trace (snd (main argv w r))) \<and> \<not> p_open (snd (main argv w r)))
   \<and> (reaches_exit argv w r \<longrightarrow>
      \<not> p_open (snd (main argv w r)) \<and> EvClose \<in> set (p_trace (snd (main argv w r))))
   \<and> (\<forall>n. fst (add_key w' r') = Exit n \<longrightarrow>
      \<not> p_open (snd (add_key w' r')) \<and> EvClose \<in> set (p_trace (snd (add_key w' r'))))
   \<and> (\<forall>e. fst (add_key w' r') = Uncaught e \<longrightarrow>
      EvClose \<notin> set (p_trace (snd (add_key w' r')))
      \<and> (p_open (snd (add_key w' r')) \<longleftrightarrow>
           (\<exists>raw. local_file w' key_path = Inr raw)
           \<and> connect_ok w' router_host router_user router_password))"
proof -
  have m: "(5 \<le> length argv \<longrightarrow>
      (EvClose \<in> set (p_trace (snd (main argv w r))) \<longleftrightarrow>
         calls_return w (argv ! 1) (argv ! 2) (argv ! 3) (argv ! 4) r)
      \<and> (p_open (snd (main argv w r)) \<longleftrightarrow>
           connect_ok w (argv ! 1) (argv ! 2) (argv ! 3)
           \<and> \<not> calls_return w (argv ! 1) (argv ! 2) (argv ! 3) (argv ! 4) r))
   \<and> (length argv < 5 \<longrightarrow>
      EvClose \<notin> set (p_trace (snd (main argv w r))) \<and> \<not> p_open (snd (main argv w r)))
   \<and> (reaches_exit argv w r \<longrightarrow>
      \<not> p_open (snd (main argv w r)) \<and> EvClose \<in> set (p_trace (snd (main argv w r))))"
  proof (cases "5 \<le> length argv")
    case True
    then have nl: "\<not> length argv < 5" by simp
    from main_try_close [OF True, of w r] True nl show ?thesis
      unfolding main_trace main_state [OF True] if_not_P [OF nl] by blast
  next
    case False
    then show ?thesis
      by (simp add: reaches_exit_def main_def start_def)
  qed
  from m add_key_close [of w' r'] show ?thesis
    by blast
qed

lemma demo_calls_return:
  "calls_return both_streams_world (demo_argv ! 1) (demo_argv ! 2) (demo_argv ! 3)
     (demo_argv ! 4) ()"
  "calls_return narrow_stdout_world (demo_argv ! 1) (demo_argv ! 2) (demo_argv ! 3)
     (demo_argv ! 4) ()"
  "\<not> calls_return undecodable_world (demo_argv ! 1) (demo_argv ! 2) (demo_argv ! 3)
     (demo_argv ! 4) ()"
  by (simp_all add: calls_return_def both_streams_world_def undecodable_world_def
      fixed_world_simps narrow_stdout_world_simps ok_channel_simps decode_out decode_err
      decode_ff decode_arrow del: utf8_decode.simps(2))

lemma garbled_run:
  "add_key garbled_world () =
    (Uncaught (OtherException (lit ''invalid start byte'')),
     \<lparr>p_stdout = [], p_stderr = [],
      p_trace = [EvNewClient, EvSetPolicy AutoAddPolicy,
        EvConnect router_host router_user router_password 10,
        EvExec nvram_get_cmd, EvReadStdout],
      p_open = True, p_remote = ()\<rparr>)"
proof -
  have "add_key_body garbled_world (start ()) =
    (Inl (Raise (OtherException (decode_error_text garbled_world [0xFF]))),
     \<lparr>p_stdout = [], p_stderr = [],
      p_trace = [EvNewClient, EvSetPolicy AutoAddPolicy,
        EvConnect router_host router_user router_password 10,
        EvExec nvram_get_cmd, EvReadStdout],
      p_open = True, p_remote = ()\<rparr>)"
    by (rule add_key_decode_nvram [where ch = "ok_channel [0xFF] [] 0" and raw = "demo_key @ nl"])
      (simp_all only: garbled_world_def key_world_simps ok_channel_simps decode_ff)
  from add_key_run(2) [OF this] show ?thesis
    by (simp add: garbled_world_def key_world_simps)
qed

text \<open>
  C4 as stated fails: the connection is set up, the output of the command is not UTF-8,
  and the process exits with 255 while the session is open and \<open>close\<close> was not called.
\<close>

theorem session_left_open_counterexample:
  "5 \<le> length demo_argv
   \<and> connect_ok undecodable_world (demo_argv ! 1) (demo_argv ! 2) (demo_argv ! 3)
   \<and> fst (main demo_argv undecodable_world ()) = Exit 255
   \<and> p_open (snd (main demo_argv undecodable_world ()))
   \<and> EvClose \<notin> set (p_trace (snd (main demo_argv undecodable_world ())))"
  by (simp add: undecodable_run)
    (simp add: demo_args undecodable_world_def fixed_world_simps)

theorem session_closed_witness:
  "5 \<le> length demo_argv
   \<and> reaches_exit demo_argv both_streams_world ()
   \<and> calls_return both_streams_world (demo_argv ! 1) (demo_argv ! 2) (demo_argv ! 3)
       (demo_argv ! 4) ()
   \<and> EvClose \<in> set (p_trace (snd (main demo_argv both_streams_world ())))
   \<and> \<not> p_open (snd (main demo_argv both_streams_world ()))
   \<and> calls_return narrow_stdout_world (demo_argv ! 1) (demo_argv ! 2) (demo_argv ! 3)
       (demo_argv ! 4) ()
   \<and> fst (main demo_argv narrow_stdout_world ()) = Exit 255
   \<and> EvClose \<in> set (p_trace (snd (main demo_argv narrow_stdout_world ())))
   \<and> \<not> p_open (snd (main demo_argv narrow_stdout_world ()))
   \<and> connect_ok undecodable_world (demo_argv ! 1) (demo_argv ! 2) (demo_argv ! 3)
   \<and> \<not> calls_return undecodable_world (demo_argv ! 1) (demo_argv ! 2) (demo_argv ! 3)
       (demo_argv ! 4) ()
   \<and> EvClose \<notin> set (p_trace (snd (main demo_argv undecodable_world ())))
   \<and> p_open (snd (main demo_argv undecodable_world ()))
   \<and> length [lit ''ssh-helper.py''] < 5
   \<and> EvClose \<notin> set (p_trace (snd (main [lit ''ssh-helper.py''] both_streams_world ())))
   \<and> \<not> p_open (snd (main [lit ''ssh-helper.py''] both_streams_world ()))
   \<and> fst (add_key (router_world demo_key) fresh_router) = Exit 0
   \<and> \<not> p_open (snd (add_key (router_world demo_key) fresh_router))
   \<and> EvClose \<in> set (p_trace (snd (add_key (router_world demo_key) fresh_router)))
   \<and> fst (add_key garbled_world ()) = Uncaught (OtherException (lit ''invalid start byte''))
   \<and> EvClose \<notin> set (p_trace (snd (add_key garbled_world ())))
   \<and> p_open (snd (add_key garbled_world ()))"
proof -
  have len: "5 \<le> length demo_argv"
    by (simp add: demo_args)
  have short: "length [lit ''ssh-helper.py''] < 5"
    by simp
  have c: "connect_ok undecodable_world (demo_argv ! 1) (demo_argv ! 2) (demo_argv ! 3)"
    by (simp add: undecodable_world_def fixed_world_simps)
  have k: "connect_ok garbled_world router_host router_user router_password"
    "\<exists>raw. local_file garbled_world key_path = Inr raw"
    by (simp_all add: garbled_world_def key_world_simps)
  have a: "fst (add_key (router_world demo_key) fresh_router) = Exit 0"
    by (simp add: router_first_run)
  have g: "fst (add_key garbled_world ()) = Uncaught (OtherException (lit ''invalid start byte''))"
    by (simp add: garbled_run)
  have n: "fst (main demo_argv narrow_stdout_world ()) = Exit 255"
    by (simp add: narrow_stdout_run)
  from session_closed_iff_calls_return [where argv = demo_argv and w = both_streams_world
      and r = "()" and w' = "router_world demo_key" and r' = fresh_router]
    session_closed_iff_calls_return [where argv = demo_argv and w = undecodable_world
      and r = "()" and w' = garbled_world and r' = "()"]
    session_closed_iff_calls_return [where argv = demo_argv and w = narrow_stdout_world
      and r = "()" and w' = garbled_world and r' = "()"]
    session_closed_iff_calls_return [where argv = "[lit ''ssh-helper.py'']"
      and w = both_streams_world and r = "()" and w' = garbled_world and r' = "()"]
    both_streams_reaches_exit demo_calls_return len short c k a g n
  show ?thesis
    by simp
qed

lemma trace_policy_main:
  "EvConnect h u p t \<in> set (p_trace (snd (main argv w r))) \<Longrightarrow>
     precedes (EvSetPolicy AutoAddPolicy) (EvConnect h u p t) (p_trace (snd (main argv w r)))"
  using main_try_policy [of w "argv ! 1" "argv ! 2" "argv ! 3" "argv ! 4" r]
  unfolding main_trace by (cases "length argv < 5") simp_all

lemma trace_policy_add_key:
  "EvConnect h u p t \<in> set (p_trace (snd (add_key w r))) \<Longrightarrow>
     precedes (EvSetPolicy AutoAddPolicy) (EvConnect h u p t) (p_trace (snd (add_key w r)))"
proof (cases rule: add_key_ends [where w = w and r = r])
  case (raised e q)
  assume "EvConnect h u p t \<in> set (p_trace (snd (add_key w r)))"
  with raised(1,6) show ?thesis
    by (simp add: add_key_trace)
next
  case (already raw ch r1 bs s)
  assume "EvConnect h u p t \<in> set (p_trace (snd (add_key w r)))"
  then show ?thesis
    unfolding add_key_trace add_key_already [OF already] by simp
next
  case (added raw ch r1 bs s ch1 r2 o1 e1 ch2 r3 o2)
  assume "EvConnect h u p t \<in> set (p_trace (snd (add_key w r)))"
  then show ?thesis
    unfolding add_key_trace add_key_added [OF added] by simp
qed

text \<open>
  C7: in both scripts the run does not depend on the host key the server presents; the
  client of the scripts (fresh, with \<open>AutoAddPolicy\<close> set) passes the host-key step for
  every host and key; and every \<open>connect\<close> comes after
  \<open>set_missing_host_key_policy(AutoAddPolicy())\<close>.
\<close>

theorem host_key_never_checked:
  "main argv (w\<lparr>server_key := k\<rparr>) r = main argv w r
   \<and> add_key (w\<lparr>server_key := k\<rparr>) r = add_key w r
   \<and> host_key_check w (set_missing_host_key_policy AutoAddPolicy SSHClient) host k = None
   \<and> (\<forall>h u p t. EvConnect h u p t \<in> set (p_trace (snd (main argv w r))) \<longrightarrow>
        precedes (EvSetPolicy AutoAddPolicy) (EvConnect h u p t)
          (p_trace (snd (main argv w r))))
   \<and> (\<forall>h u p t. EvConnect h u p t \<in> set (p_trace (snd (add_key w r))) \<longrightarrow>
        precedes (EvSetPolicy AutoAddPolicy) (EvConnect h u p t)
          (p_trace (snd (add_key w r))))"
proof (intro conjI allI impI)
  show "main argv (w\<lparr>server_key := k\<rparr>) r = main argv w r"
    by (simp add: main_def main_try_server_key)
  show "add_key (w\<lparr>server_key := k\<rparr>) r = add_key w r"
    by (simp add: add_key_def add_key_body_server_key)
  show "host_key_check w (set_missing_host_key_policy AutoAddPolicy SSHClient) host k = None"
    by (rule host_key_check_auto_add)
qed (erule trace_policy_main, erule trace_policy_add_key)

theorem host_key_witness:
  "main demo_argv (both_streams_world\<lparr>server_key := [9, 9, 9]\<rparr>) () =
     main demo_argv both_streams_world ()
   \<and> fst (main demo_argv both_streams_world ()) = Exit 7
   \<and> EvConnect (lit ''router'') (lit ''admin'') (lit ''secret'') 15
       \<in> set (p_trace (snd (main demo_argv both_streams_world ())))
   \<and> precedes (EvSetPolicy AutoAddPolicy)
       (EvConnect (lit ''router'') (lit ''admin'') (lit ''secret'') 15)
       (p_trace (snd (main demo_argv both_streams_world ())))
   \<and> add_key ((router_world demo_key)\<lparr>server_key := [9, 9, 9]\<rparr>) fresh_router =
       add_key (router_world demo_key) fresh_router
   \<and> fst (add_key (router_world demo_key) fresh_router) = Exit 0
   \<and> EvConnect router_host router_user router_password 10
       \<in> set (p_trace (snd (add_key (router_world demo_key) fresh_router)))
   \<and> precedes (EvSetPolicy AutoAddPolicy)
       (EvConnect router_host router_user router_password 10)
       (p_trace (snd (add_key (router_world demo_key) fresh_router)))"
proof -
  have e: "EvConnect (lit ''router'') (lit ''admin'') (lit ''secret'') 15
       \<in> set (p_trace (snd (main demo_argv both_streams_world ())))"
    by (simp add: both_streams_run)
  have f: "EvConnect router_host router_user router_password 10
       \<in> set (p_trace (snd (add_key (router_world demo_key) fresh_router)))"
    by (simp add: router_first_run)
  from host_key_never_checked [where argv = demo_argv and w = both_streams_world
      and k = "[9, 9, 9]" and r = "()"]
    host_key_never_checked [where w = "router_world demo_key"
      and k = "[9, 9, 9]" and r = fresh_router] e f
  show ?thesis
    by (simp add: both_streams_run router_first_run)
qed

end
